theory Spec2Isabelle
  imports Complex_Main "HOL-Library.Sublist" "HOL-Library.AList"
begin

section \<open>The payment orchestrator (src/ai/agent.py)\<close>

text \<open>
  The service keeps two process-wide registries, \<open>INVOICE_DB\<close> (a dict from invoice id
  to the invoice's fields) and \<open>shipping_confirmation_registry\<close> (a set of ids), and
  talks to the executor backend over HTTP. Each handler is embedded as a function from
  the state before to the HTTP reply and the state after. What the outside world
  answers (the backend's replies, the clock, whether a write of the database file went
  through) is an argument of the handler.

  Amounts and balances are Python floats in the source; they are embedded as reals. An
  invoice's amount is the number \<open>float(amount)\<close> yields, as the data model has it.
\<close>

subsection \<open>Data\<close>

record invoice =
  amount :: real
  recipientAddress :: "string option"
  condition :: string
  status :: string
  transactionHash :: "string option"
  paidAt :: "string option"
  createdAt :: string

text \<open>The JSON body of a creation request; a key that is missing is \<open>None\<close>.\<close>

record payload =
  p_invoiceId :: "string option"
  p_amount :: "real option"
  p_recipientAddress :: "string option"
  p_condition :: "string option"

text \<open>
  The file \<open>DB_FILE\<close>: missing, left damaged by a write that broke off, or holding the
  pairs of a dict.
\<close>

datatype db_file = Missing | Damaged | Holds "string \<rightharpoonup> invoice"

text \<open>The requests sent to the executor backend, in the order they were sent.\<close>

datatype remote_call =
    GetBalance
  | CreateOnChain payload
  | TriggerPayment string

record state =
  INVOICE_DB :: "string \<rightharpoonup> invoice"
  shipping_confirmation_registry :: "string set"
  DB_FILE :: db_file
  requests_sent :: "remote_call list"

text \<open>
  The outcome of one \<open>save_database\<close>: the file was written, \<open>open\<close> raised (the file
  keeps its content), or \<open>json.dump\<close> raised after \<open>open\<close> had truncated the file.
\<close>

datatype write_outcome = Written | OpenFailed | DumpFailed

text \<open>
  The backend's answers. \<open>BalanceRaised\<close>: \<open>requests.get\<close>, \<open>response.json()\<close> or
  \<open>float\<close> raised. \<open>BalanceReplied code b\<close>: status code and the body's \<open>balance\<close> key.
\<close>

datatype balance_reply = BalanceReplied nat "real option" | BalanceRaised

text \<open>
  \<open>CreateReplied code err\<close>: status code, and \<open>err\<close> the value of
  \<open>response.json().get('error', response.text)\<close>. \<open>CreateRaised e\<close>: \<open>requests.post\<close> or
  the decoding of the body raised, \<open>e\<close> being \<open>str(e)\<close>.
\<close>

datatype create_reply = CreateReplied nat string | CreateRaised string

text \<open>
  The body of a reply of trigger-payment with status 200: a JSON object with its
  \<open>paidAt\<close> and \<open>transactionHash\<close> keys, or a body on which \<open>response.json()\<close> raises.
\<close>

datatype trigger_body = TriggerJson "string option" "string option" | TriggerNotJson string

datatype trigger_reply = TriggerReplied nat trigger_body | TriggerRaised string

record create_env =
  balance_answer :: balance_reply
  clock :: string
  insert_write :: write_outcome
  create_answer :: create_reply
  rollback_write :: write_outcome

record trigger_env =
  executing_write :: write_outcome
  trigger_answer :: trigger_reply
  final_write :: write_outcome

record monitor_env =
  monitoring_write :: write_outcome
  nested_trigger :: trigger_env

text \<open>The dict a handler returns, one constructor for each message the source builds.\<close>

datatype reply =
    InvoiceIdRequired
  | InvoiceIdExists string
  | InsufficientFunds real real
  | PaymentCreated invoice
  | InsufficientFundsRecheck real
  | OnChainFailure string
  | ConnectFailed string
  | InvoiceNotFound
  | NowMonitored
  | PreConfirmedPaid string
  | PreConfirmedFailed
  | ConditionMetPaid
  | ExecutionFailed
  | UnexpectedError string
  | RecordedAwaitingCreation
  | AlreadyPaid
  | AlreadyInProgress
  | RecordedAwaitingMonitoring

subsection \<open>The database file\<close>

definition load_database :: "state \<Rightarrow> state" where
  "load_database s =
     (case DB_FILE s of
        Holds m \<Rightarrow> s\<lparr>INVOICE_DB := m\<rparr>
      | Missing \<Rightarrow> s\<lparr>INVOICE_DB := Map.empty\<rparr>
      | Damaged \<Rightarrow> s\<lparr>INVOICE_DB := Map.empty\<rparr>)"

definition save_database :: "write_outcome \<Rightarrow> state \<Rightarrow> state" where
  "save_database w s =
     (case w of
        Written \<Rightarrow> s\<lparr>DB_FILE := Holds (INVOICE_DB s)\<rparr>
      | OpenFailed \<Rightarrow> s
      | DumpFailed \<Rightarrow> s\<lparr>DB_FILE := Damaged\<rparr>)"

definition get_payment_status :: "state \<Rightarrow> (string \<rightharpoonup> invoice) \<times> nat" where
  "get_payment_status s = (INVOICE_DB s, 200)"

subsection \<open>The balance check\<close>

definition send :: "remote_call \<Rightarrow> state \<Rightarrow> state" where
  "send c s = s\<lparr>requests_sent := requests_sent s @ [c]\<rparr>"

definition check_backend_balance ::
  "real \<Rightarrow> balance_reply \<Rightarrow> state \<Rightarrow> (bool \<times> real) \<times> state" where
  "check_backend_balance amount_needed answer s =
     (let s1 = send GetBalance s in
      case answer of
        BalanceReplied code b \<Rightarrow>
          if code = 200 then
            let current_balance = (case b of None \<Rightarrow> 0 | Some x \<Rightarrow> x);
                total_needed = amount_needed + 1 / 10
            in if current_balance < total_needed then ((False, current_balance), s1)
               else ((True, current_balance), s1)
          else ((False, 0), s1)
      | BalanceRaised \<Rightarrow> ((False, 0), s1))"

subsection \<open>Creation\<close>

text \<open>
  An assignment \<open>db[invoice_id][key] = v\<close>. The source makes it only where the id is a
  key of the dict (inside \<open>if invoice_id in db\<close>, or after the status was read), so
  the \<open>KeyError\<close> of a missing id cannot occur; the embedding leaves the dict as it is
  there.
\<close>

definition update_invoice :: "string \<Rightarrow> (invoice \<Rightarrow> invoice) \<Rightarrow> state \<Rightarrow> state" where
  "update_invoice i f s =
     (case INVOICE_DB s i of
        None \<Rightarrow> s
      | Some entry \<Rightarrow> s\<lparr>INVOICE_DB := (INVOICE_DB s)(i \<mapsto> f entry)\<rparr>)"

definition set_status :: "string \<Rightarrow> string \<Rightarrow> state \<Rightarrow> state" where
  "set_status i v s = update_invoice i (\<lambda>entry. entry\<lparr>status := v\<rparr>) s"

definition delete_invoice :: "string \<Rightarrow> state \<Rightarrow> state" where
  "delete_invoice i s = s\<lparr>INVOICE_DB := (INVOICE_DB s)(i := None)\<rparr>"

definition create_payment_logic ::
  "payload \<Rightarrow> create_env \<Rightarrow> state \<Rightarrow> (reply \<times> nat) \<times> state" where
  "create_payment_logic p env s =
     (let amt = (case p_amount p of None \<Rightarrow> 1 | Some a \<Rightarrow> a) in
      case p_invoiceId p of
        None \<Rightarrow> ((InvoiceIdRequired, 400), s)
      | Some invoice_id \<Rightarrow>
          if invoice_id = [] then ((InvoiceIdRequired, 400), s)
          else case INVOICE_DB s invoice_id of
            Some existing \<Rightarrow> ((InvoiceIdExists (status existing), 409), s)
          | None \<Rightarrow>
              let ((is_solvent, current_balance), s1) =
                    check_backend_balance amt (balance_answer env) s
              in if \<not> is_solvent then
                   ((InsufficientFunds current_balance (amt + 1 / 10), 402), s1)
                 else
                   let payment_details =
                         \<lparr>amount = amt,
                          recipientAddress = p_recipientAddress p,
                          condition =
                            (case p_condition p of None \<Rightarrow> ''goods_shipped'' | Some c \<Rightarrow> c),
                          status = ''Pending'',
                          transactionHash = None,
                          paidAt = None,
                          createdAt = clock env\<rparr>;
                       s2 = save_database (insert_write env)
                              (s1\<lparr>INVOICE_DB := (INVOICE_DB s1)(invoice_id \<mapsto> payment_details)\<rparr>);
                       s3 = send (CreateOnChain p) s2
                   in case create_answer env of
                        CreateReplied code backend_error \<Rightarrow>
                          if code = 201 then ((PaymentCreated payment_details, 201), s3)
                          else
                            let error_message =
                                  (if sublist ''INSUFFICIENT_BALANCE'' backend_error
                                   then InsufficientFundsRecheck current_balance
                                   else OnChainFailure backend_error)
                            in ((error_message, 500),
                                save_database (rollback_write env) (delete_invoice invoice_id s3))
                      | CreateRaised e \<Rightarrow>
                          ((ConnectFailed e, 500),
                           save_database (rollback_write env) (delete_invoice invoice_id s3)))"

text \<open>
  The JSON endpoint passes its body on. The voice endpoint of this service draws an id
  that is not a key of the dict and calls \<open>create_payment_logic\<close> with it as well.
\<close>

definition create_payment_request ::
  "payload \<Rightarrow> create_env \<Rightarrow> state \<Rightarrow> (reply \<times> nat) \<times> state" where
  "create_payment_request data env s = create_payment_logic data env s"

subsection \<open>The condition signal\<close>

text \<open>
  On an answer 200 the source sets the status to PAID before it reads the body; when
  the body cannot be read the handler of the exception sets MONITORING again, within
  the same request.
\<close>

definition trigger_payment ::
  "string option \<Rightarrow> trigger_env \<Rightarrow> state \<Rightarrow> (reply \<times> nat) \<times> state" where
  "trigger_payment invoice_id env s =
     (case invoice_id of
        None \<Rightarrow> ((InvoiceIdRequired, 400), s)
      | Some i \<Rightarrow>
          if i = [] then ((InvoiceIdRequired, 400), s)
          else
            let s1 = s\<lparr>shipping_confirmation_registry :=
                         insert i (shipping_confirmation_registry s)\<rparr>;
                current_status = map_option status (INVOICE_DB s1 i)
            in if current_status = Some ''MONITORING'' then
                 let s2 = save_database (executing_write env) (set_status i ''EXECUTING'' s1);
                     s3 = send (TriggerPayment i) s2
                 in case trigger_answer env of
                      TriggerReplied code body \<Rightarrow>
                        if code = 200 then
                          (case body of
                             TriggerJson paid_at tx_hash \<Rightarrow>
                               ((ConditionMetPaid, 200),
                                save_database (final_write env)
                                  (update_invoice i (\<lambda>entry. entry\<lparr>transactionHash := tx_hash\<rparr>)
                                    (update_invoice i (\<lambda>entry. entry\<lparr>paidAt := paid_at\<rparr>)
                                      (set_status i ''PAID'' s3))))
                           | TriggerNotJson e \<Rightarrow>
                               ((UnexpectedError e, 500),
                                save_database (final_write env)
                                  (set_status i ''MONITORING'' (set_status i ''PAID'' s3))))
                        else
                          ((ExecutionFailed, 500),
                           save_database (final_write env) (set_status i ''MONITORING'' s3))
                    | TriggerRaised e \<Rightarrow>
                        ((UnexpectedError e, 500),
                         save_database (final_write env) (set_status i ''MONITORING'' s3))
               else if current_status = None then ((RecordedAwaitingCreation, 200), s1)
               else if current_status = Some ''PAID'' then ((AlreadyPaid, 200), s1)
               else if current_status = Some ''EXECUTING'' then ((AlreadyInProgress, 202), s1)
               else ((RecordedAwaitingMonitoring, 200), s1))"

definition mock_shipping_confirmation ::
  "string option \<Rightarrow> trigger_env \<Rightarrow> state \<Rightarrow> (reply \<times> nat) \<times> state" where
  "mock_shipping_confirmation data_invoiceId env s = trigger_payment data_invoiceId env s"

subsection \<open>Monitoring\<close>

definition process_invoice ::
  "string option \<Rightarrow> monitor_env \<Rightarrow> state \<Rightarrow> (reply \<times> nat) \<times> state" where
  "process_invoice invoice_id env s =
     (case invoice_id of
        None \<Rightarrow> ((InvoiceIdRequired, 400), s)
      | Some i \<Rightarrow>
          if i = [] then ((InvoiceIdRequired, 400), s)
          else case INVOICE_DB s i of
            None \<Rightarrow> ((InvoiceNotFound, 404), s)
          | Some entry \<Rightarrow>
              let s1 = (if status entry = ''Pending''
                        then save_database (monitoring_write env) (set_status i ''MONITORING'' s)
                        else s)
              in if i \<in> shipping_confirmation_registry s1 then
                   let ((response_data, status_code), s2) =
                         trigger_payment (Some i) (nested_trigger env) s1
                   in if status_code = 200 then ((PreConfirmedPaid i, 200), s2)
                      else ((PreConfirmedFailed, 500), s2)
                 else ((NowMonitored, 200), s1))"

subsection \<open>Runs of requests\<close>

text \<open>
  The three requests of the orchestrator, each with what the outside world answers
  while it is served, and the state a list of requests leaves, served one after the
  other.
\<close>

datatype op =
    CreateInvoice payload create_env
  | BeginMonitoring "string option" monitor_env
  | Trigger "string option" trigger_env

fun step :: "op \<Rightarrow> state \<Rightarrow> (reply \<times> nat) \<times> state" where
  "step (CreateInvoice p env) s = create_payment_request p env s"
| "step (BeginMonitoring i env) s = process_invoice i env s"
| "step (Trigger i env) s = mock_shipping_confirmation i env s"

fun run :: "op list \<Rightarrow> state \<Rightarrow> state" where
  "run [] s = s"
| "run (x # xs) s = run xs (snd (step x s))"

text \<open>The state of the process when it starts with no database file.\<close>

definition initial :: state where
  "initial = \<lparr>INVOICE_DB = Map.empty, shipping_confirmation_registry = {},
              DB_FILE = Missing, requests_sent = []\<rparr>"

definition status_of :: "state \<Rightarrow> string \<Rightarrow> string option" where
  "status_of s i = map_option status (INVOICE_DB s i)"

section \<open>The voice agent (src/ai-agent/agent.py)\<close>

text \<open>
  The second service keeps \<open>invoice_registry\<close>, a dict from invoice id to the name of
  its state, and its own \<open>shipping_confirmation_registry\<close>. The dict is embedded as an
  association list with one pair for each key, as \<open>len\<close> of it names the temporary
  entry of a voice request; \<open>AList.update\<close> and \<open>AList.delete\<close> are the assignment
  and \<open>del\<close>. The backend's answer to trigger-payment is a status code, or an
  exception. The id a voice request works with is what \<open>re.sub\<close> leaves of the
  model's answer, its digits.
\<close>

record agent_state =
  invoice_registry :: "(string \<times> string) list"
  shipping_confirmation_registry_aa :: "string set"
  payments_posted :: "string list"

datatype backend_reply = BackendReplied nat | BackendRaised

datatype upload = NoAudioPart | EmptyFilename | AudioFile

text \<open>
  What the speech-to-text call gives: the text, stripped, or one of the two exceptions
  the handler tells apart.
\<close>

datatype transcription =
    Transcribed string
  | UnprocessableEntityError string
  | TranscriptionRaised string

datatype generation = Generated string | GenerationRaised

record voice_env =
  uploaded :: upload
  transcription_answer :: transcription
  gemini_answer :: generation
  payment_answer :: backend_reply

datatype agent_reply =
    NoAudioFile
  | NoSelectedFile
  | AudioUnclear
  | NoIdExtracted string
  | VoiceAlreadyPaid string
  | VoicePreConfirmedPaid string string
  | VoicePreConfirmedFailed string
  | VoiceMonitored string string
  | InvalidAudio string
  | VoiceUnexpected string
  | SignalIdRequired
  | SignalPaid string
  | SignalFailed string
  | SignalRecorded string
  | SignalAlreadyPaid
  | SignalInProgress
  | SignalNonStandard string

definition is_digit :: "char \<Rightarrow> bool" where
  "is_digit c = (c \<in> set ''0123456789'')"

definition extract_invoice_id_from_text :: "generation \<Rightarrow> string option" where
  "extract_invoice_id_from_text answer =
     (case answer of
        Generated response_text \<Rightarrow>
          let invoice_id = filter is_digit response_text
          in if invoice_id = [] then None else Some invoice_id
      | GenerationRaised \<Rightarrow> None)"

definition set_state :: "string \<Rightarrow> string \<Rightarrow> agent_state \<Rightarrow> agent_state" where
  "set_state i v s = s\<lparr>invoice_registry := AList.update i v (invoice_registry s)\<rparr>"

definition execute_payment ::
  "string \<Rightarrow> backend_reply \<Rightarrow> agent_state \<Rightarrow> bool \<times> agent_state" where
  "execute_payment invoice_id answer s =
     (if map_of (invoice_registry s) invoice_id = Some ''PAID'' then (True, s)
      else
        let s1 = set_state invoice_id ''EXECUTING'' s;
            s2 = s1\<lparr>payments_posted := payments_posted s1 @ [invoice_id]\<rparr>
        in case answer of
             BackendReplied code \<Rightarrow>
               if code = 200 then (True, set_state invoice_id ''PAID'' s2)
               else (False, set_state invoice_id ''MONITORING'' s2)
           | BackendRaised \<Rightarrow> (False, set_state invoice_id ''MONITORING'' s2))"

fun str_nat :: "nat \<Rightarrow> string" where
  "str_nat n =
     (if n < 10 then [char_of (48 + n)]
      else str_nat (n div 10) @ [char_of (48 + n mod 10)])"

definition del_entry :: "string \<Rightarrow> agent_state \<Rightarrow> agent_state" where
  "del_entry i s = s\<lparr>invoice_registry := AList.delete i (invoice_registry s)\<rparr>"

definition transcribe_audio_aa ::
  "voice_env \<Rightarrow> agent_state \<Rightarrow> (agent_reply \<times> nat) \<times> agent_state" where
  "transcribe_audio_aa env s =
     (case uploaded env of
        NoAudioPart \<Rightarrow> ((NoAudioFile, 400), s)
      | EmptyFilename \<Rightarrow> ((NoSelectedFile, 400), s)
      | AudioFile \<Rightarrow>
          let temp_id = ''temp_'' @ str_nat (length (invoice_registry s));
              s1 = set_state temp_id ''PROCESSING'' s
          in case transcription_answer env of
               UnprocessableEntityError e \<Rightarrow> ((InvalidAudio e, 422), del_entry temp_id s1)
             | TranscriptionRaised e \<Rightarrow> ((VoiceUnexpected e, 500), del_entry temp_id s1)
             | Transcribed transcribed_text \<Rightarrow>
                 if transcribed_text = [] then ((AudioUnclear, 400), del_entry temp_id s1)
                 else
                   let invoice_id = extract_invoice_id_from_text (gemini_answer env);
                       s2 = del_entry temp_id s1
                   in case invoice_id of
                        None \<Rightarrow> ((NoIdExtracted transcribed_text, 400), s2)
                      | Some i \<Rightarrow>
                          if map_of (invoice_registry s2) i = Some ''PAID''
                          then ((VoiceAlreadyPaid i, 200), s2)
                          else if i \<in> shipping_confirmation_registry_aa s2 then
                            let (payment_success, s3) =
                                  execute_payment i (payment_answer env) s2
                            in if payment_success
                               then ((VoicePreConfirmedPaid i transcribed_text, 200), s3)
                               else ((VoicePreConfirmedFailed i, 500), s3)
                          else
                            ((VoiceMonitored i transcribed_text, 201),
                             set_state i ''MONITORING'' s2))"

definition mock_shipping_confirmation_aa ::
  "string option \<Rightarrow> backend_reply \<Rightarrow> agent_state \<Rightarrow> (agent_reply \<times> nat) \<times> agent_state" where
  "mock_shipping_confirmation_aa data_invoiceId answer s =
     (case data_invoiceId of
        None \<Rightarrow> ((SignalIdRequired, 400), s)
      | Some invoice_id \<Rightarrow>
          if invoice_id = [] then ((SignalIdRequired, 400), s)
          else
            let s1 = s\<lparr>shipping_confirmation_registry_aa :=
                         insert invoice_id (shipping_confirmation_registry_aa s)\<rparr>;
                current_state = map_of (invoice_registry s1) invoice_id
            in if current_state = Some ''MONITORING'' then
                 let (payment_success, s2) = execute_payment invoice_id answer s1
                 in if payment_success then ((SignalPaid invoice_id, 200), s2)
                    else ((SignalFailed invoice_id, 500), s2)
               else case current_state of
                 None \<Rightarrow> ((SignalRecorded invoice_id, 200), s1)
               | Some st \<Rightarrow>
                   if st = ''PAID'' then ((SignalAlreadyPaid, 200), s1)
                   else if st = ''EXECUTING'' then ((SignalInProgress, 202), s1)
                   else ((SignalNonStandard st, 409), s1))"

datatype agent_op =
    Transcribe voice_env
  | ShippingConfirmed "string option" backend_reply

fun agent_step :: "agent_op \<Rightarrow> agent_state \<Rightarrow> (agent_reply \<times> nat) \<times> agent_state" where
  "agent_step (Transcribe env) s = transcribe_audio_aa env s"
| "agent_step (ShippingConfirmed i answer) s = mock_shipping_confirmation_aa i answer s"

fun agent_run :: "agent_op list \<Rightarrow> agent_state \<Rightarrow> agent_state" where
  "agent_run [] s = s"
| "agent_run (x # xs) s = agent_run xs (snd (agent_step x s))"

definition agent_initial :: agent_state where
  "agent_initial = \<lparr>invoice_registry = [], shipping_confirmation_registry_aa = {},
                    payments_posted = []\<rparr>"

section \<open>Vocabulary of the properties\<close>

subsection \<open>Creation\<close>

text \<open>
  The amount a creation request asks for, whether the balance query failed, and the
  balance \<open>check_backend_balance\<close> reports.
\<close>

definition requested_amount :: "payload \<Rightarrow> real" where
  "requested_amount p = (case p_amount p of None \<Rightarrow> 1 | Some a \<Rightarrow> a)"

definition query_failed :: "balance_reply \<Rightarrow> bool" where
  "query_failed answer =
     (case answer of BalanceReplied code b \<Rightarrow> code \<noteq> 200 | BalanceRaised \<Rightarrow> True)"

definition observed_balance :: "balance_reply \<Rightarrow> real" where
  "observed_balance answer =
     (case answer of
        BalanceReplied code b \<Rightarrow>
          (if code = 200 then (case b of None \<Rightarrow> 0 | Some x \<Rightarrow> x) else 0)
      | BalanceRaised \<Rightarrow> 0)"

text \<open>The remote creation call did not answer 201.\<close>

definition create_failed :: "create_reply \<Rightarrow> bool" where
  "create_failed answer =
     (case answer of CreateReplied code err \<Rightarrow> code \<noteq> 201 | CreateRaised e \<Rightarrow> True)"

text \<open>The message the backend, or the exception, gave.\<close>

definition upstream_message :: "create_reply \<Rightarrow> string" where
  "upstream_message answer =
     (case answer of CreateReplied code err \<Rightarrow> err | CreateRaised e \<Rightarrow> e)"

text \<open>An executor error that carries the message \<open>m\<close>.\<close>

definition carries_upstream :: "reply \<Rightarrow> string \<Rightarrow> bool" where
  "carries_upstream r m = (r = OnChainFailure m \<or> r = ConnectFailed m)"

text \<open>The backend refused the creation with the insufficient-balance marker.\<close>

definition insufficient_balance_reported :: "create_reply \<Rightarrow> bool" where
  "insufficient_balance_reported answer =
     (case answer of
        CreateReplied code err \<Rightarrow> sublist ''INSUFFICIENT_BALANCE'' err
      | CreateRaised e \<Rightarrow> False)"

subsection \<open>The condition signal\<close>

text \<open>
  The state in which \<open>trigger_payment\<close> has sent its request to the backend: the id
  registered, the invoice set to EXECUTING and saved.
\<close>

definition after_call :: "string \<Rightarrow> trigger_env \<Rightarrow> state \<Rightarrow> state" where
  "after_call i env s =
     send (TriggerPayment i)
       (save_database (executing_write env)
         (set_status i ''EXECUTING''
           (s\<lparr>shipping_confirmation_registry :=
                insert i (shipping_confirmation_registry s)\<rparr>)))"

text \<open>The backend answered 200 with a JSON object.\<close>

definition payment_succeeds :: "trigger_env \<Rightarrow> bool" where
  "payment_succeeds env =
     (case trigger_answer env of
        TriggerReplied code body \<Rightarrow>
          code = 200 \<and> (case body of TriggerJson p h \<Rightarrow> True | TriggerNotJson e \<Rightarrow> False)
      | TriggerRaised e \<Rightarrow> False)"

text \<open>
  The state in which \<open>process_invoice\<close> looks the id up in the registry, and in which
  it calls \<open>trigger_payment\<close>: a Pending invoice has been set to MONITORING and saved.
\<close>

definition monitoring_begun :: "string \<Rightarrow> monitor_env \<Rightarrow> state \<Rightarrow> state" where
  "monitoring_begun i env s =
     (if status_of s i = Some ''Pending''
      then save_database (monitoring_write env) (set_status i ''MONITORING'' s)
      else s)"

subsection \<open>The life cycle of an invoice\<close>


fun observed :: "op list \<Rightarrow> state \<Rightarrow> string \<Rightarrow> string option list" where
  "observed [] s i = [status_of s i]"
| "observed (x # xs) s i = status_of s i # observed xs (snd (step x s)) i"

subsection \<open>Payment calls\<close>

text \<open>
  The ids of the payment requests in a log of requests. \<open>fires x s\<close> is the id for
  which request \<open>x\<close>, served in state \<open>s\<close>, calls \<open>trigger_payment\<close> in a state where
  the invoice is MONITORING: for a condition signal that state is \<open>s\<close>, for a
  monitoring request it is the state in which the Pending invoice has been promoted,
  and the call is made only for an id found in the registry. \<open>fired\<close> collects these
  ids along a run.
\<close>

fun payment_ids :: "remote_call list \<Rightarrow> string list" where
  "payment_ids [] = []"
| "payment_ids (TriggerPayment i # cs) = i # payment_ids cs"
| "payment_ids (c # cs) = payment_ids cs"

fun fires :: "op \<Rightarrow> state \<Rightarrow> string list" where
  "fires (CreateInvoice p env) s = []"
| "fires (BeginMonitoring io env) s =
     (case io of
        None \<Rightarrow> []
      | Some i \<Rightarrow>
          if i \<noteq> [] \<and> i \<in> shipping_confirmation_registry s
             \<and> status_of (monitoring_begun i env s) i = Some ''MONITORING''
          then [i] else [])"
| "fires (Trigger io env) s =
     (case io of
        None \<Rightarrow> []
      | Some i \<Rightarrow> if i \<noteq> [] \<and> status_of s i = Some ''MONITORING'' then [i] else [])"

fun fired :: "op list \<Rightarrow> state \<Rightarrow> string list" where
  "fired [] s = []"
| "fired (x # xs) s = fires x s @ fired xs (snd (step x s))"

text \<open>
  The id with which a voice request of the voice agent reaches its checks of the
  registries: there was an audio file, the transcription is not empty and an id was
  extracted from it.
\<close>

definition voice_request_id :: "voice_env \<Rightarrow> string option" where
  "voice_request_id env =
     (case uploaded env of
        AudioFile \<Rightarrow>
          (case transcription_answer env of
             Transcribed transcribed_text \<Rightarrow>
               if transcribed_text = [] then None
               else extract_invoice_id_from_text (gemini_answer env)
           | UnprocessableEntityError e \<Rightarrow> None
           | TranscriptionRaised e \<Rightarrow> None)
      | NoAudioPart \<Rightarrow> None
      | EmptyFilename \<Rightarrow> None)"

subsection \<open>Concrete requests\<close>

definition inv7_payload :: payload where
  "inv7_payload =
     \<lparr>p_invoiceId = Some ''INV-7'', p_amount = Some 1,
      p_recipientAddress = Some ''0x57'', p_condition = None\<rparr>"

definition all_well :: create_env where
  "all_well =
     \<lparr>balance_answer = BalanceReplied 200 (Some 50), clock = ''2025-01-01T10:00:00'',
      insert_write = Written, create_answer = CreateReplied 201 [],
      rollback_write = Written\<rparr>"

definition payment_ok :: trigger_env where
  "payment_ok =
     \<lparr>executing_write = Written,
      trigger_answer = TriggerReplied 200 (TriggerJson (Some ''2025-01-02T10:00:00'') (Some ''0xabc'')),
      final_write = Written\<rparr>"

definition monitor_ok :: monitor_env where
  "monitor_ok = \<lparr>monitoring_write = Written, nested_trigger = payment_ok\<rparr>"

definition paid_invoice :: invoice where
  "paid_invoice =
     \<lparr>amount = 1, recipientAddress = Some ''0x57'', condition = ''goods_shipped'',
      status = ''PAID'', transactionHash = Some ''0xabc'',
      paidAt = Some ''2025-01-02T10:00:00'', createdAt = ''2025-01-01T10:00:00''\<rparr>"

definition paid_state :: state where
  "paid_state = initial\<lparr>INVOICE_DB := [''INV-1'' \<mapsto> paid_invoice]\<rparr>"

definition agent_paid_state :: agent_state where
  "agent_paid_state = agent_initial\<lparr>invoice_registry := [(''991'', ''PAID'')]\<rparr>"

definition balance_refused :: create_env where
  "balance_refused =
     all_well\<lparr>create_answer := CreateReplied 400 ''INSUFFICIENT_BALANCE: wallet is empty''\<rparr>"

definition unreachable_unwritten :: create_env where
  "unreachable_unwritten =
     all_well\<lparr>create_answer := CreateRaised ''Connection refused'', rollback_write := OpenFailed\<rparr>"

definition unreachable :: create_env where
  "unreachable = all_well\<lparr>create_answer := CreateRaised ''Connection refused''\<rparr>"

definition pending_inv7 :: invoice where
  "pending_inv7 =
     \<lparr>amount = 1, recipientAddress = Some ''0x57'', condition = ''goods_shipped'',
      status = ''Pending'', transactionHash = None, paidAt = None,
      createdAt = ''2025-01-01T10:00:00''\<rparr>"

definition voice_991 :: voice_env where
  "voice_991 =
     \<lparr>uploaded = AudioFile, transcription_answer = Transcribed ''pay invoice nine nine one'',
      gemini_answer = Generated ''991'', payment_answer = BackendReplied 200\<rparr>"

text \<open>
  The process restarted on a file written while a payment was in flight: the record
  was saved as EXECUTING before the request to the backend.
\<close>

definition interrupted_state :: state where
  "interrupted_state =
     load_database
       (initial\<lparr>DB_FILE := Holds [''INV-1'' \<mapsto>
          paid_invoice\<lparr>status := ''EXECUTING'', transactionHash := None, paidAt := None\<rparr>]\<rparr>)"

section \<open>Facts about the orchestrator's handlers\<close>

subsection \<open>What the helpers change\<close>

lemma save_database_fields [simp]:
  "INVOICE_DB (save_database w s) = INVOICE_DB s"
  "shipping_confirmation_registry (save_database w s) = shipping_confirmation_registry s"
  "requests_sent (save_database w s) = requests_sent s"
  by (simp_all add: save_database_def split: write_outcome.splits)

lemma save_database_file [simp]:
  "DB_FILE (save_database Written s) = Holds (INVOICE_DB s)"
  "DB_FILE (save_database OpenFailed s) = DB_FILE s"
  "DB_FILE (save_database DumpFailed s) = Damaged"
  by (simp_all add: save_database_def)

lemma send_fields [simp]:
  "INVOICE_DB (send c s) = INVOICE_DB s"
  "shipping_confirmation_registry (send c s) = shipping_confirmation_registry s"
  "DB_FILE (send c s) = DB_FILE s"
  "requests_sent (send c s) = requests_sent s @ [c]"
  by (simp_all add: send_def)

lemma update_invoice_fields [simp]:
  "shipping_confirmation_registry (update_invoice i f s) = shipping_confirmation_registry s"
  "DB_FILE (update_invoice i f s) = DB_FILE s"
  "requests_sent (update_invoice i f s) = requests_sent s"
  "INVOICE_DB (update_invoice i f s) j =
     (if j = i then map_option f (INVOICE_DB s i) else INVOICE_DB s j)"
  by (simp_all add: update_invoice_def split: option.splits)

lemma set_status_fields [simp]:
  "shipping_confirmation_registry (set_status i v s) = shipping_confirmation_registry s"
  "DB_FILE (set_status i v s) = DB_FILE s"
  "requests_sent (set_status i v s) = requests_sent s"
  "INVOICE_DB (set_status i v s) j =
     (if j = i then map_option (\<lambda>entry. entry\<lparr>status := v\<rparr>) (INVOICE_DB s i)
      else INVOICE_DB s j)"
  by (simp_all add: set_status_def)

lemma status_of_registry_update [simp]:
  "status_of (s\<lparr>shipping_confirmation_registry := r\<rparr>) i = status_of s i"
  by (simp add: status_of_def)

lemma check_backend_balance_state [simp]:
  "snd (check_backend_balance a r s) = send GetBalance s"
  by (simp add: check_backend_balance_def Let_def split: balance_reply.splits)

lemma check_backend_balance_result:
  "fst (check_backend_balance a r s) =
     (\<not> query_failed r \<and> \<not> observed_balance r < a + 1 / 10, observed_balance r)"
  by (simp add: check_backend_balance_def query_failed_def observed_balance_def Let_def
      split: balance_reply.splits)

subsection \<open>Creation, case by case\<close>

lemma create_payment_logic_fresh:
  assumes "p_invoiceId p = Some i" and "i \<noteq> []" and "INVOICE_DB s i = None"
  shows "create_payment_logic p env s =
     (let amt = requested_amount p;
          r = check_backend_balance amt (balance_answer env) s;
          current_balance = snd (fst r);
          s1 = snd r
      in if \<not> fst (fst r) then ((InsufficientFunds current_balance (amt + 1 / 10), 402), s1)
         else
           let payment_details =
                 \<lparr>amount = amt, recipientAddress = p_recipientAddress p,
                  condition = (case p_condition p of None \<Rightarrow> ''goods_shipped'' | Some c \<Rightarrow> c),
                  status = ''Pending'', transactionHash = None, paidAt = None,
                  createdAt = clock env\<rparr>;
               s3 = send (CreateOnChain p)
                      (save_database (insert_write env)
                        (s1\<lparr>INVOICE_DB := (INVOICE_DB s1)(i \<mapsto> payment_details)\<rparr>))
           in case create_answer env of
                CreateReplied code backend_error \<Rightarrow>
                  if code = 201 then ((PaymentCreated payment_details, 201), s3)
                  else ((if sublist ''INSUFFICIENT_BALANCE'' backend_error
                         then InsufficientFundsRecheck current_balance
                         else OnChainFailure backend_error, 500),
                        save_database (rollback_write env) (delete_invoice i s3))
              | CreateRaised e \<Rightarrow>
                  ((ConnectFailed e, 500),
                   save_database (rollback_write env) (delete_invoice i s3)))"
  using assms
  by (simp add: create_payment_logic_def requested_amount_def Let_def split_beta
      split: create_reply.splits)

lemma delete_invoice_fields [simp]:
  "shipping_confirmation_registry (delete_invoice i s) = shipping_confirmation_registry s"
  "DB_FILE (delete_invoice i s) = DB_FILE s"
  "requests_sent (delete_invoice i s) = requests_sent s"
  "INVOICE_DB (delete_invoice i s) = (INVOICE_DB s)(i := None)"
  by (simp_all add: delete_invoice_def)

lemma create_rolled_back:
  assumes "p_invoiceId p = Some i" and "i \<noteq> []" and "INVOICE_DB s i = None"
    and "\<not> query_failed (balance_answer env)"
    and "\<not> observed_balance (balance_answer env) < requested_amount p + 1 / 10"
    and "create_failed (create_answer env)"
  shows "fst (create_payment_logic p env s) =
           ((case create_answer env of
               CreateReplied code err \<Rightarrow>
                 if sublist ''INSUFFICIENT_BALANCE'' err
                 then InsufficientFundsRecheck (observed_balance (balance_answer env))
                 else OnChainFailure err
             | CreateRaised e \<Rightarrow> ConnectFailed e), 500)"
    and "INVOICE_DB (snd (create_payment_logic p env s)) = INVOICE_DB s"
    and "requests_sent (snd (create_payment_logic p env s))
         = requests_sent s @ [GetBalance, CreateOnChain p]"
    and "shipping_confirmation_registry (snd (create_payment_logic p env s))
         = shipping_confirmation_registry s"
    and "rollback_write env = Written \<Longrightarrow>
         DB_FILE (snd (create_payment_logic p env s)) = Holds (INVOICE_DB s)"
  using assms
  by (auto simp: create_payment_logic_fresh Let_def check_backend_balance_result
      create_failed_def split: create_reply.splits)

subsection \<open>The condition signal, case by case\<close>

lemma trigger_no_id:
  "io = None \<or> io = Some [] \<Longrightarrow> trigger_payment io env s = ((InvoiceIdRequired, 400), s)"
  by (auto simp: trigger_payment_def)

lemma trigger_payment_idle:
  assumes "i \<noteq> []" and "status_of s i \<noteq> Some ''MONITORING''"
  shows "trigger_payment (Some i) env s =
           ((if status_of s i = None then (RecordedAwaitingCreation, 200)
             else if status_of s i = Some ''PAID'' then (AlreadyPaid, 200)
             else if status_of s i = Some ''EXECUTING'' then (AlreadyInProgress, 202)
             else (RecordedAwaitingMonitoring, 200)),
            s\<lparr>shipping_confirmation_registry := insert i (shipping_confirmation_registry s)\<rparr>)"
  using assms by (auto simp: trigger_payment_def status_of_def Let_def)

lemma trigger_payment_fires:
  assumes "i \<noteq> []" and "status_of s i = Some ''MONITORING''"
  shows "trigger_payment (Some i) env s =
     (case trigger_answer env of
        TriggerReplied code body \<Rightarrow>
          if code = 200 then
            (case body of
               TriggerJson paid_at tx_hash \<Rightarrow>
                 ((ConditionMetPaid, 200),
                  save_database (final_write env)
                    (update_invoice i (\<lambda>entry. entry\<lparr>transactionHash := tx_hash\<rparr>)
                      (update_invoice i (\<lambda>entry. entry\<lparr>paidAt := paid_at\<rparr>)
                        (set_status i ''PAID'' (after_call i env s)))))
             | TriggerNotJson e \<Rightarrow>
                 ((UnexpectedError e, 500),
                  save_database (final_write env)
                    (set_status i ''MONITORING'' (set_status i ''PAID'' (after_call i env s)))))
          else ((ExecutionFailed, 500),
                save_database (final_write env) (set_status i ''MONITORING'' (after_call i env s)))
      | TriggerRaised e \<Rightarrow>
          ((UnexpectedError e, 500),
           save_database (final_write env) (set_status i ''MONITORING'' (after_call i env s))))"
  using assms
  by (auto simp: trigger_payment_def status_of_def Let_def after_call_def
      split: trigger_reply.splits trigger_body.splits)

lemma trigger_payment_fires_reply:
  assumes "i \<noteq> []" and "status_of s i = Some ''MONITORING''" and "payment_succeeds env"
  shows "fst (trigger_payment (Some i) env s) = (ConditionMetPaid, 200)"
  using assms
  by (simp add: trigger_payment_fires payment_succeeds_def
      split: trigger_reply.splits trigger_body.splits)

lemma trigger_payment_requests:
  "requests_sent (snd (trigger_payment io env s)) =
     requests_sent s @
       (case io of None \<Rightarrow> []
        | Some i \<Rightarrow>
            if i \<noteq> [] \<and> status_of s i = Some ''MONITORING'' then [TriggerPayment i] else [])"
proof (cases io)
  case None
  then show ?thesis by (simp add: trigger_no_id)
next
  case (Some i)
  show ?thesis
  proof (cases "i \<noteq> [] \<and> status_of s i = Some ''MONITORING''")
    case True
    then show ?thesis using Some
      by (simp add: trigger_payment_fires after_call_def
          split: trigger_reply.splits trigger_body.splits)
  next
    case False
    then show ?thesis using Some
      by (cases "i = []") (simp_all add: trigger_no_id trigger_payment_idle)
  qed
qed

lemma trigger_payment_registry:
  "shipping_confirmation_registry (snd (trigger_payment io env s)) =
     (case io of None \<Rightarrow> shipping_confirmation_registry s
      | Some i \<Rightarrow> if i = [] then shipping_confirmation_registry s
                  else insert i (shipping_confirmation_registry s))"
proof (cases io)
  case None
  then show ?thesis by (simp add: trigger_no_id)
next
  case (Some i)
  show ?thesis
  proof (cases "i \<noteq> [] \<and> status_of s i = Some ''MONITORING''")
    case True
    then show ?thesis using Some
      by (simp add: trigger_payment_fires after_call_def
          split: trigger_reply.splits trigger_body.splits)
  next
    case False
    then show ?thesis using Some
      by (cases "i = []") (simp_all add: trigger_no_id trigger_payment_idle)
  qed
qed

lemma create_payment_logic_registry:
  "shipping_confirmation_registry (snd (create_payment_logic p env s))
   = shipping_confirmation_registry s"
  by (simp add: create_payment_logic_def Let_def split_beta delete_invoice_def
      split: option.splits create_reply.splits)

lemma process_invoice_registry:
  "shipping_confirmation_registry (snd (process_invoice io env s))
   = shipping_confirmation_registry s"
  by (auto simp: process_invoice_def Let_def split_beta trigger_payment_registry
      split: option.splits)

lemma step_registry_nonempty:
  "[] \<notin> shipping_confirmation_registry s \<Longrightarrow>
   [] \<notin> shipping_confirmation_registry (snd (step x s))"
  by (cases x)
     (auto simp: create_payment_request_def mock_shipping_confirmation_def
        create_payment_logic_registry process_invoice_registry trigger_payment_registry
        split: option.splits)

lemma run_registry_nonempty:
  "[] \<notin> shipping_confirmation_registry s \<Longrightarrow>
   [] \<notin> shipping_confirmation_registry (run ops s)"
  by (induction ops arbitrary: s) (simp_all add: step_registry_nonempty)

lemma trigger_paid_many:
  assumes "i \<noteq> []" and "status_of s i = Some ''PAID''"
  shows "run (map (Trigger (Some i)) envs) s =
           (if envs = [] then s
            else s\<lparr>shipping_confirmation_registry :=
                     insert i (shipping_confirmation_registry s)\<rparr>)"
  using assms
proof (induction envs arbitrary: s)
  case Nil
  then show ?case by simp
next
  case (Cons e envs)
  let ?s' = "s\<lparr>shipping_confirmation_registry := insert i (shipping_confirmation_registry s)\<rparr>"
  have paid': "status_of ?s' i = Some ''PAID''" using Cons.prems by simp
  have "run (map (Trigger (Some i)) (e # envs)) s = run (map (Trigger (Some i)) envs) ?s'"
    using Cons.prems by (simp add: mock_shipping_confirmation_def trigger_payment_idle)
  also have "\<dots> = ?s'"
    using Cons.IH [OF Cons.prems(1) paid'] by simp
  finally show ?case by simp
qed

subsection \<open>The status of an invoice along a run\<close>


lemma monitoring_begun_fields [simp]:
  "shipping_confirmation_registry (monitoring_begun i env s) = shipping_confirmation_registry s"
  "requests_sent (monitoring_begun i env s) = requests_sent s"
  by (simp_all add: monitoring_begun_def)

lemma monitoring_begun_status:
  "status_of (monitoring_begun i env s) j =
     (if j = i \<and> status_of s i = Some ''Pending'' then Some ''MONITORING'' else status_of s j)"
  by (auto simp: monitoring_begun_def status_of_def)

lemma process_invoice_found:
  assumes "i \<noteq> []" and "INVOICE_DB s i = Some entry"
  shows "process_invoice (Some i) env s =
     (if i \<in> shipping_confirmation_registry s then
        ((if snd (fst (trigger_payment (Some i) (nested_trigger env) (monitoring_begun i env s))) = 200
          then (PreConfirmedPaid i, 200) else (PreConfirmedFailed, 500)),
         snd (trigger_payment (Some i) (nested_trigger env) (monitoring_begun i env s)))
      else ((NowMonitored, 200), monitoring_begun i env s))"
  using assms
  by (simp add: process_invoice_def monitoring_begun_def status_of_def Let_def split_beta)

lemma process_invoice_absent:
  "io = None \<or> io = Some [] \<or> (\<exists>i. io = Some i \<and> INVOICE_DB s i = None) \<Longrightarrow>
   snd (process_invoice io env s) = s"
  by (auto simp: process_invoice_def)











lemma hd_observed [simp]: "hd (observed ops s j) = status_of s j"
  by (cases ops) simp_all

lemma observed_not_Nil [simp]: "observed ops s j \<noteq> []"
  by (cases ops) simp_all


subsection \<open>The registry and the other handlers\<close>

lemma status_of_send [simp]: "status_of (send c s) i = status_of s i"
  by (simp add: status_of_def)

lemma status_of_save [simp]: "status_of (save_database w s) i = status_of s i"
  by (simp add: status_of_def)

text \<open>The registry is not read by the helpers: an insertion into it moves outwards.\<close>

lemma registry_update_send:
  "send c (s\<lparr>shipping_confirmation_registry := r\<rparr>)
   = (send c s)\<lparr>shipping_confirmation_registry := r\<rparr>"
  by (simp add: send_def)

lemma registry_update_save:
  "save_database w (s\<lparr>shipping_confirmation_registry := r\<rparr>)
   = (save_database w s)\<lparr>shipping_confirmation_registry := r\<rparr>"
  by (cases w) (simp_all add: save_database_def)

lemma registry_update_update_invoice:
  "update_invoice i f (s\<lparr>shipping_confirmation_registry := r\<rparr>)
   = (update_invoice i f s)\<lparr>shipping_confirmation_registry := r\<rparr>"
  by (simp add: update_invoice_def split: option.splits)

lemma registry_update_set_status:
  "set_status i v (s\<lparr>shipping_confirmation_registry := r\<rparr>)
   = (set_status i v s)\<lparr>shipping_confirmation_registry := r\<rparr>"
  by (simp add: set_status_def registry_update_update_invoice)

lemma registry_update_delete_invoice:
  "delete_invoice i (s\<lparr>shipping_confirmation_registry := r\<rparr>)
   = (delete_invoice i s)\<lparr>shipping_confirmation_registry := r\<rparr>"
  by (simp add: delete_invoice_def)

lemma create_payment_logic_registry_frame:
  "create_payment_logic p env (s\<lparr>shipping_confirmation_registry := r\<rparr>)
   = (fst (create_payment_logic p env s),
      (snd (create_payment_logic p env s))\<lparr>shipping_confirmation_registry := r\<rparr>)"
proof (cases "p_invoiceId p")
  case None
  then show ?thesis by (simp add: create_payment_logic_def)
next
  case (Some i)
  show ?thesis
  proof (cases "i = [] \<or> INVOICE_DB s i \<noteq> None")
    case True
    then show ?thesis using Some by (auto simp: create_payment_logic_def Let_def)
  next
    case False
    then have f: "i \<noteq> []" "INVOICE_DB s i = None" by auto
    have f': "INVOICE_DB (s\<lparr>shipping_confirmation_registry := r\<rparr>) i = None"
      using f by simp
    have c: "check_backend_balance a b (s\<lparr>shipping_confirmation_registry := r\<rparr>)
             = (fst (check_backend_balance a b s),
                (snd (check_backend_balance a b s))\<lparr>shipping_confirmation_registry := r\<rparr>)"
      for a b
      by (simp add: check_backend_balance_def Let_def registry_update_send
          split: balance_reply.splits)
    show ?thesis
      unfolding create_payment_logic_fresh [OF Some f(1) f']
        create_payment_logic_fresh [OF Some f]
      by (cases "insert_write env"; cases "rollback_write env")
         (simp_all add: c Let_def send_def save_database_def delete_invoice_def
            split: create_reply.splits)
  qed
qed

lemma trigger_payment_registered:
  "i \<noteq> [] \<Longrightarrow>
   trigger_payment (Some i) env
     (s\<lparr>shipping_confirmation_registry := insert i (shipping_confirmation_registry s)\<rparr>)
   = trigger_payment (Some i) env s"
  by (simp add: trigger_payment_def)

lemma monitoring_begun_registry_frame:
  "monitoring_begun i env (s\<lparr>shipping_confirmation_registry := r\<rparr>)
   = (monitoring_begun i env s)\<lparr>shipping_confirmation_registry := r\<rparr>"
  by (simp add: monitoring_begun_def registry_update_save registry_update_set_status)


lemma create_succeeds:
  assumes "p_invoiceId p = Some i" and "i \<noteq> []" and "INVOICE_DB s i = None"
    and "\<not> query_failed (balance_answer env)"
    and "\<not> observed_balance (balance_answer env) < requested_amount p + 1 / 10"
    and "create_answer env = CreateReplied 201 err"
  shows "snd (fst (create_payment_logic p env s)) = 201"
    and "INVOICE_DB (snd (create_payment_logic p env s)) =
           (INVOICE_DB s)(i \<mapsto>
              \<lparr>amount = requested_amount p, recipientAddress = p_recipientAddress p,
               condition = (case p_condition p of None \<Rightarrow> ''goods_shipped'' | Some c \<Rightarrow> c),
               status = ''Pending'', transactionHash = None, paidAt = None,
               createdAt = clock env\<rparr>)"
    and "status_of (snd (create_payment_logic p env s)) i = Some ''Pending''"
  using assms
  by (simp_all add: create_payment_logic_fresh Let_def check_backend_balance_result
      status_of_def)

lemma trigger_payment_paid_record:
  assumes "i \<noteq> []" and "status_of s i = Some ''MONITORING''"
    and "trigger_answer env = TriggerReplied 200 (TriggerJson paid_at tx_hash)"
  shows "INVOICE_DB (snd (trigger_payment (Some i) env s)) i =
           map_option (\<lambda>entry. entry\<lparr>status := ''PAID'', paidAt := paid_at,
                                     transactionHash := tx_hash\<rparr>) (INVOICE_DB s i)"
  using assms
  by (cases "INVOICE_DB s i") (simp_all add: trigger_payment_fires after_call_def status_of_def)

lemma registry_same [simp]:
  "i \<in> shipping_confirmation_registry s \<Longrightarrow>
   s\<lparr>shipping_confirmation_registry := insert i (shipping_confirmation_registry s)\<rparr> = s"
  by (simp add: insert_absorb)

subsection \<open>The payment requests of a run\<close>

lemma payment_ids_append [simp]: "payment_ids (xs @ ys) = payment_ids xs @ payment_ids ys"
  by (induction xs rule: payment_ids.induct) simp_all

lemma create_payment_logic_requests:
  "payment_ids (requests_sent (snd (create_payment_logic p env s)))
   = payment_ids (requests_sent s)"
proof (cases "p_invoiceId p")
  case None
  then show ?thesis by (simp add: create_payment_logic_def)
next
  case (Some i)
  show ?thesis
  proof (cases "i = [] \<or> INVOICE_DB s i \<noteq> None")
    case True
    then show ?thesis using Some by (auto simp: create_payment_logic_def Let_def)
  next
    case False
    then have f: "i \<noteq> []" "INVOICE_DB s i = None" by auto
    show ?thesis
      unfolding create_payment_logic_fresh [OF Some f]
      by (simp add: Let_def split: create_reply.splits)
  qed
qed

lemma process_invoice_requests:
  "requests_sent (snd (process_invoice io env s))
   = requests_sent s @ map TriggerPayment (fires (BeginMonitoring io env) s)"
proof (cases "io = None \<or> io = Some [] \<or> (\<exists>i. io = Some i \<and> INVOICE_DB s i = None)")
  case True
  then show ?thesis
    by (auto simp: process_invoice_absent monitoring_begun_def status_of_def)
next
  case False
  then obtain i entry where io: "io = Some i" and i: "i \<noteq> []" and e: "INVOICE_DB s i = Some entry"
    by (cases io) auto
  show ?thesis
    unfolding io process_invoice_found [OF i e]
    using i by (simp add: trigger_payment_requests)
qed

lemma step_payment_ids:
  "payment_ids (requests_sent (snd (step x s))) = payment_ids (requests_sent s) @ fires x s"
proof (cases x)
  case (CreateInvoice p env)
  then show ?thesis by (simp add: create_payment_request_def create_payment_logic_requests)
next
  case (BeginMonitoring io env)
  then show ?thesis
    by (simp add: process_invoice_requests split: option.splits)
next
  case (Trigger io env)
  then show ?thesis
    by (simp add: mock_shipping_confirmation_def trigger_payment_requests split: option.splits)
qed

lemma run_payment_ids:
  "payment_ids (requests_sent (run ops s)) = payment_ids (requests_sent s) @ fired ops s"
  by (induction ops arbitrary: s) (simp_all add: step_payment_ids del: step.simps fires.simps)

text \<open>The end-to-end run of the specification: create, monitor, signal.\<close>

lemma end_to_end:
  "map_option status (INVOICE_DB (run [CreateInvoice inv7_payload all_well,
         BeginMonitoring (Some ''INV-7'') monitor_ok,
         Trigger (Some ''INV-7'') payment_ok] initial) ''INV-7'') = Some ''PAID''
   \<and> requests_sent (run [CreateInvoice inv7_payload all_well,
         BeginMonitoring (Some ''INV-7'') monitor_ok,
         Trigger (Some ''INV-7'') payment_ok] initial)
      = [GetBalance, CreateOnChain inv7_payload, TriggerPayment ''INV-7'']"
  by (simp add: create_payment_request_def create_payment_logic_def check_backend_balance_def
      process_invoice_def mock_shipping_confirmation_def trigger_payment_def
      inv7_payload_def all_well_def monitor_ok_def payment_ok_def initial_def Let_def
      send_def save_database_def set_status_def update_invoice_def)

section \<open>Facts about the voice agent's handlers\<close>

lemma mock_aa_no_id:
  "io = None \<or> io = Some [] \<Longrightarrow>
   mock_shipping_confirmation_aa io answer t = ((SignalIdRequired, 400), t)"
  by (auto simp: mock_shipping_confirmation_aa_def)

lemma mock_aa_idle:
  assumes "i \<noteq> []" and "map_of (invoice_registry t) i \<noteq> Some ''MONITORING''"
  shows "mock_shipping_confirmation_aa (Some i) answer t =
           ((case map_of (invoice_registry t) i of
               None \<Rightarrow> (SignalRecorded i, 200)
             | Some st \<Rightarrow>
                 if st = ''PAID'' then (SignalAlreadyPaid, 200)
                 else if st = ''EXECUTING'' then (SignalInProgress, 202)
                 else (SignalNonStandard st, 409)),
            t\<lparr>shipping_confirmation_registry_aa :=
                 insert i (shipping_confirmation_registry_aa t)\<rparr>)"
  using assms by (auto simp: mock_shipping_confirmation_aa_def Let_def split: option.splits)

lemma mock_aa_paid_many:
  assumes "i \<noteq> []" and "map_of (invoice_registry t) i = Some ''PAID''"
  shows "agent_run (map (ShippingConfirmed (Some i)) answers) t =
           (if answers = [] then t
            else t\<lparr>shipping_confirmation_registry_aa :=
                      insert i (shipping_confirmation_registry_aa t)\<rparr>)"
  using assms
proof (induction answers arbitrary: t)
  case Nil
  then show ?case by simp
next
  case (Cons a answers)
  let ?t' = "t\<lparr>shipping_confirmation_registry_aa :=
                 insert i (shipping_confirmation_registry_aa t)\<rparr>"
  have paid': "map_of (invoice_registry ?t') i = Some ''PAID''" using Cons.prems by simp
  have "agent_run (map (ShippingConfirmed (Some i)) (a # answers)) t
        = agent_run (map (ShippingConfirmed (Some i)) answers) ?t'"
    using Cons.prems by (simp add: mock_aa_idle)
  also have "\<dots> = ?t'"
    using Cons.IH [OF Cons.prems(1) paid'] by simp
  finally show ?case by simp
qed

lemma set_state_fields [simp]:
  "shipping_confirmation_registry_aa (set_state i v t) = shipping_confirmation_registry_aa t"
  "payments_posted (set_state i v t) = payments_posted t"
  "map_of (invoice_registry (set_state i v t)) j = (if j = i then Some v else map_of (invoice_registry t) j)"
  by (simp_all add: set_state_def update_conv')

lemma del_entry_fields [simp]:
  "shipping_confirmation_registry_aa (del_entry i t) = shipping_confirmation_registry_aa t"
  "payments_posted (del_entry i t) = payments_posted t"
  "map_of (invoice_registry (del_entry i t)) j = (if j = i then None else map_of (invoice_registry t) j)"
  by (simp_all add: del_entry_def delete_conv')

lemma execute_payment_ship [simp]:
  "shipping_confirmation_registry_aa (snd (execute_payment i a t))
   = shipping_confirmation_registry_aa t"
  by (simp add: execute_payment_def Let_def split: backend_reply.splits)


lemma transcribe_ship:
  "shipping_confirmation_registry_aa (snd (transcribe_audio_aa env t))
   = shipping_confirmation_registry_aa t"
proof (cases "uploaded env")
  case AudioFile
  show ?thesis
  proof (cases "transcription_answer env")
    case (Transcribed x)
    show ?thesis
    proof (cases "extract_invoice_id_from_text (gemini_answer env)")
      case None
      then show ?thesis using AudioFile Transcribed
        by (simp add: transcribe_audio_aa_def Let_def)
    next
      case (Some i)
      then show ?thesis using AudioFile Transcribed
        by (simp add: transcribe_audio_aa_def Let_def split_beta)
    qed
  qed (simp_all add: transcribe_audio_aa_def AudioFile Let_def)
qed (simp_all add: transcribe_audio_aa_def)


lemma mock_aa_ship:
  "shipping_confirmation_registry_aa (snd (mock_shipping_confirmation_aa io a t)) =
     (case io of None \<Rightarrow> shipping_confirmation_registry_aa t
      | Some i \<Rightarrow> if i = [] then shipping_confirmation_registry_aa t
                  else insert i (shipping_confirmation_registry_aa t))"
  by (simp add: mock_shipping_confirmation_aa_def Let_def split_beta split: option.splits)

lemma agent_run_ship_nonempty:
  "[] \<notin> shipping_confirmation_registry_aa t \<Longrightarrow>
   [] \<notin> shipping_confirmation_registry_aa (agent_run aops t)"
proof (induction aops arbitrary: t)
  case Nil
  then show ?case by simp
next
  case (Cons x aops)
  have "[] \<notin> shipping_confirmation_registry_aa (snd (agent_step x t))"
    using Cons.prems by (cases x) (auto simp: transcribe_ship mock_aa_ship split: option.splits)
  then show ?case using Cons.IH by simp
qed

lemma mock_aa_fires:
  assumes "j \<noteq> []" and "map_of (invoice_registry t) j = Some ''MONITORING''"
  shows "fst (mock_shipping_confirmation_aa (Some j) answer t) =
           (if answer = BackendReplied 200 then (SignalPaid j, 200) else (SignalFailed j, 500))"
  using assms
  by (cases answer)
     (simp_all add: mock_shipping_confirmation_aa_def execute_payment_def Let_def)

lemma extract_digits:
  assumes "extract_invoice_id_from_text g = Some i"
  shows "i \<noteq> [] \<and> is_digit (hd i)"
proof -
  obtain answer_text where i: "i = filter is_digit answer_text" and ne: "filter is_digit answer_text \<noteq> []"
    using assms
    by (auto simp: extract_invoice_id_from_text_def Let_def
        split: generation.splits if_splits)
  have "hd (filter is_digit answer_text) \<in> set (filter is_digit answer_text)"
    using ne by (rule hd_in_set)
  then show ?thesis using i ne by simp
qed

lemma extracted_not_temp:
  "extract_invoice_id_from_text g = Some i \<Longrightarrow> i \<noteq> ''temp_'' @ n"
  using extract_digits [of g i] by (auto simp: is_digit_def)

lemma execute_payment_posted:
  "payments_posted (snd (execute_payment i a t)) =
     payments_posted t @ (if map_of (invoice_registry t) i = Some ''PAID'' then [] else [i])"
  by (simp add: execute_payment_def Let_def split: backend_reply.splits)

lemma transcribe_posts:
  "payments_posted (snd (transcribe_audio_aa env t)) =
     payments_posted t @
       (case voice_request_id env of
          None \<Rightarrow> []
        | Some i \<Rightarrow>
            if map_of (invoice_registry t) i \<noteq> Some ''PAID''
               \<and> i \<in> shipping_confirmation_registry_aa t
            then [i] else [])"
proof (cases "uploaded env")
  case AudioFile
  show ?thesis
  proof (cases "transcription_answer env")
    case (Transcribed x)
    show ?thesis
    proof (cases "x = []")
      case True
      then show ?thesis using AudioFile Transcribed
        by (simp add: transcribe_audio_aa_def voice_request_id_def Let_def)
    next
      case False
      show ?thesis
      proof (cases "extract_invoice_id_from_text (gemini_answer env)")
        case None
        then show ?thesis using AudioFile Transcribed False
          by (simp add: transcribe_audio_aa_def voice_request_id_def Let_def)
      next
        case (Some i)
        then show ?thesis using AudioFile Transcribed False extracted_not_temp [OF Some]
          by (simp add: transcribe_audio_aa_def voice_request_id_def Let_def split_beta
              execute_payment_posted)
      qed
    qed
  qed (simp_all add: transcribe_audio_aa_def voice_request_id_def AudioFile Let_def)
qed (simp_all add: transcribe_audio_aa_def voice_request_id_def)

lemma mock_aa_posts:
  "payments_posted (snd (mock_shipping_confirmation_aa io a t)) =
     payments_posted t @
       (case io of
          None \<Rightarrow> []
        | Some j \<Rightarrow>
            if j \<noteq> [] \<and> map_of (invoice_registry t) j = Some ''MONITORING'' then [j] else [])"
proof (cases io)
  case None
  then show ?thesis by (simp add: mock_aa_no_id)
next
  case (Some j)
  show ?thesis
  proof (cases "j \<noteq> [] \<and> map_of (invoice_registry t) j = Some ''MONITORING''")
    case True
    then show ?thesis using Some
      by (simp add: mock_shipping_confirmation_aa_def Let_def split_beta execute_payment_posted)
  next
    case False
    then show ?thesis using Some
      by (cases "j = []") (simp_all add: mock_aa_no_id mock_aa_idle)
  qed
qed

section \<open>The properties\<close>

text \<open>
  C7. A creation request whose id is already a key of \<open>INVOICE_DB\<close> is answered 409,
  with the stored status in the body, and the whole state (the store, the registry, the
  file, the requests sent) is what it was: the stored record keeps all its fields.
\<close>

theorem create_conflict_mutates_nothing:
  assumes "p_invoiceId p = Some i" and "i \<noteq> []" and "INVOICE_DB s i = Some existing"
  shows "create_payment_request p env s = ((InvoiceIdExists (status existing), 409), s)"
  using assms by (simp add: create_payment_request_def create_payment_logic_def)

theorem create_conflict_mutates_nothing_witness:
  "p_invoiceId (inv7_payload\<lparr>p_invoiceId := Some ''INV-1''\<rparr>) = Some ''INV-1''
   \<and> ''INV-1'' \<noteq> []
   \<and> INVOICE_DB paid_state ''INV-1'' = Some paid_invoice
   \<and> create_payment_request (inv7_payload\<lparr>p_invoiceId := Some ''INV-1''\<rparr>) all_well paid_state
       = ((InvoiceIdExists ''PAID'', 409), paid_state)"
proof -
  have h1: "p_invoiceId (inv7_payload\<lparr>p_invoiceId := Some ''INV-1''\<rparr>) = Some ''INV-1''"
    by simp
  have h2: "''INV-1'' \<noteq> []" by simp
  have h3: "INVOICE_DB paid_state ''INV-1'' = Some paid_invoice"
    by (simp add: paid_state_def)
  have "status paid_invoice = ''PAID''" by (simp add: paid_invoice_def)
  with create_conflict_mutates_nothing [OF h1 h2 h3, of all_well] h1 h2 h3
  show ?thesis by simp
qed



text \<open>
  C10. A condition signal whose body has no \<open>invoiceId\<close>, or an empty one, is answered
  400 by both services and the state is returned as it was: nothing was added to the
  registry and the store is untouched. As the only insertion into the registry comes
  after that check, a registry without the empty id never gets it, whatever requests
  follow.
\<close>

theorem signal_without_id_rejected:
  "(io = None \<or> io = Some [] \<longrightarrow>
      mock_shipping_confirmation io env s = ((InvoiceIdRequired, 400), s)
    \<and> mock_shipping_confirmation_aa io answer t = ((SignalIdRequired, 400), t))
   \<and> ([] \<notin> shipping_confirmation_registry s \<longrightarrow>
        [] \<notin> shipping_confirmation_registry (run ops s))
   \<and> ([] \<notin> shipping_confirmation_registry_aa t \<longrightarrow>
        [] \<notin> shipping_confirmation_registry_aa (agent_run aops t))"
  by (simp add: mock_shipping_confirmation_def trigger_no_id mock_aa_no_id
      run_registry_nonempty agent_run_ship_nonempty)

theorem signal_without_id_rejected_witness:
  "(Some [] = None \<or> Some [] = Some ([]::string))
   \<and> [] \<notin> shipping_confirmation_registry initial
   \<and> [] \<notin> shipping_confirmation_registry_aa agent_initial
   \<and> mock_shipping_confirmation (Some []) payment_ok initial = ((InvoiceIdRequired, 400), initial)
   \<and> mock_shipping_confirmation_aa (Some []) (BackendReplied 200) agent_initial
       = ((SignalIdRequired, 400), agent_initial)
   \<and> [] \<notin> shipping_confirmation_registry
        (run [Trigger (Some []) payment_ok, Trigger None payment_ok,
              Trigger (Some ''INV-7'') payment_ok] initial)
   \<and> [] \<notin> shipping_confirmation_registry_aa
        (agent_run [ShippingConfirmed (Some []) (BackendReplied 200),
                    ShippingConfirmed (Some ''991'') (BackendReplied 200)] agent_initial)"
proof -
  have h0: "Some [] = None \<or> Some [] = Some ([]::string)" by simp
  have h1: "[] \<notin> shipping_confirmation_registry initial" by (simp add: initial_def)
  have h2: "[] \<notin> shipping_confirmation_registry_aa agent_initial"
    by (simp add: agent_initial_def)
  from signal_without_id_rejected
         [of "Some []" payment_ok initial "BackendReplied 200" agent_initial
             "[Trigger (Some []) payment_ok, Trigger None payment_ok,
               Trigger (Some ''INV-7'') payment_ok]"
             "[ShippingConfirmed (Some []) (BackendReplied 200),
               ShippingConfirmed (Some ''991'') (BackendReplied 200)]"] h0 h1 h2
  show ?thesis by blast
qed

text \<open>
  C8. A condition signal for an invoice that is already PAID is answered 200 "already
  paid" by both services. It only (re)inserts the id into the registry: the store, the
  file and the requests sent are what they were, so status, transactionHash and paidAt
  are unchanged. Any number of repetitions leaves the state the first call left, and
  each of them gets the same answer.
\<close>

theorem trigger_on_paid_idempotent:
  "(i \<noteq> [] \<and> status_of s i = Some ''PAID'' \<longrightarrow>
      step (Trigger (Some i) env) s =
        ((AlreadyPaid, 200),
         s\<lparr>shipping_confirmation_registry := insert i (shipping_confirmation_registry s)\<rparr>)
    \<and> run (map (Trigger (Some i)) (env # envs)) s = snd (step (Trigger (Some i) env) s)
    \<and> fst (step (Trigger (Some i) env') (run (map (Trigger (Some i)) envs) s))
        = (AlreadyPaid, 200)
    \<and> INVOICE_DB (run (map (Trigger (Some i)) envs') s) = INVOICE_DB s)
   \<and> (j \<noteq> [] \<and> map_of (invoice_registry t) j = Some ''PAID'' \<longrightarrow>
      agent_step (ShippingConfirmed (Some j) a) t =
        ((SignalAlreadyPaid, 200),
         t\<lparr>shipping_confirmation_registry_aa :=
              insert j (shipping_confirmation_registry_aa t)\<rparr>)
    \<and> agent_run (map (ShippingConfirmed (Some j)) (a # answers)) t
        = snd (agent_step (ShippingConfirmed (Some j) a) t)
    \<and> fst (agent_step (ShippingConfirmed (Some j) a')
             (agent_run (map (ShippingConfirmed (Some j)) answers) t))
        = (SignalAlreadyPaid, 200)
    \<and> invoice_registry (agent_run (map (ShippingConfirmed (Some j)) answers') t)
        = invoice_registry t)"
proof (intro conjI impI)
  assume a: "i \<noteq> [] \<and> status_of s i = Some ''PAID''"
  then have once: "\<And>e s'. status_of s' i = Some ''PAID'' \<Longrightarrow>
      step (Trigger (Some i) e) s' =
        ((AlreadyPaid, 200),
         s'\<lparr>shipping_confirmation_registry := insert i (shipping_confirmation_registry s')\<rparr>)"
    by (simp add: mock_shipping_confirmation_def trigger_payment_idle)
  from a have many: "\<And>es. run (map (Trigger (Some i)) es) s =
           (if es = [] then s
            else s\<lparr>shipping_confirmation_registry :=
                     insert i (shipping_confirmation_registry s)\<rparr>)"
    by (simp add: trigger_paid_many)
  show "step (Trigger (Some i) env) s =
        ((AlreadyPaid, 200),
         s\<lparr>shipping_confirmation_registry := insert i (shipping_confirmation_registry s)\<rparr>)"
    using a once by simp
  show "run (map (Trigger (Some i)) (env # envs)) s = snd (step (Trigger (Some i) env) s)"
    using a once [of s env] many [of "env # envs"] by simp
  have "status_of (run (map (Trigger (Some i)) envs) s) i = Some ''PAID''"
    using a by (simp add: many)
  then show "fst (step (Trigger (Some i) env') (run (map (Trigger (Some i)) envs) s))
        = (AlreadyPaid, 200)"
    using once by simp
  show "INVOICE_DB (run (map (Trigger (Some i)) envs') s) = INVOICE_DB s"
    by (simp add: many)
next
  assume a: "j \<noteq> [] \<and> map_of (invoice_registry t) j = Some ''PAID''"
  then have once: "\<And>b t'. map_of (invoice_registry t') j = Some ''PAID'' \<Longrightarrow>
      agent_step (ShippingConfirmed (Some j) b) t' =
        ((SignalAlreadyPaid, 200),
         t'\<lparr>shipping_confirmation_registry_aa :=
              insert j (shipping_confirmation_registry_aa t')\<rparr>)"
    by (simp add: mock_aa_idle)
  from a have many: "\<And>bs. agent_run (map (ShippingConfirmed (Some j)) bs) t =
           (if bs = [] then t
            else t\<lparr>shipping_confirmation_registry_aa :=
                      insert j (shipping_confirmation_registry_aa t)\<rparr>)"
    by (simp add: mock_aa_paid_many)
  show "agent_step (ShippingConfirmed (Some j) a) t =
        ((SignalAlreadyPaid, 200),
         t\<lparr>shipping_confirmation_registry_aa :=
              insert j (shipping_confirmation_registry_aa t)\<rparr>)"
    using a once by simp
  show "agent_run (map (ShippingConfirmed (Some j)) (a # answers)) t
        = snd (agent_step (ShippingConfirmed (Some j) a) t)"
    using a once [of t a] many [of "a # answers"] by simp
  have "map_of (invoice_registry (agent_run (map (ShippingConfirmed (Some j)) answers) t)  ) j
        = Some ''PAID''"
    using a by (simp add: many)
  then show "fst (agent_step (ShippingConfirmed (Some j) a')
             (agent_run (map (ShippingConfirmed (Some j)) answers) t))
        = (SignalAlreadyPaid, 200)"
    using once by simp
  show "invoice_registry (agent_run (map (ShippingConfirmed (Some j)) answers') t)
        = invoice_registry t"
    by (simp add: many)
qed

theorem trigger_on_paid_idempotent_witness:
  "(''INV-1'' \<noteq> [] \<and> status_of paid_state ''INV-1'' = Some ''PAID'')
   \<and> (''991'' \<noteq> [] \<and> map_of (invoice_registry agent_paid_state) ''991'' = Some ''PAID'')
   \<and> step (Trigger (Some ''INV-1'') payment_ok) paid_state =
        ((AlreadyPaid, 200),
         paid_state\<lparr>shipping_confirmation_registry :=
           insert ''INV-1'' (shipping_confirmation_registry paid_state)\<rparr>)
   \<and> INVOICE_DB (run (map (Trigger (Some ''INV-1'')) [payment_ok, payment_ok]) paid_state)
        = INVOICE_DB paid_state
   \<and> agent_step (ShippingConfirmed (Some ''991'') BackendRaised) agent_paid_state =
        ((SignalAlreadyPaid, 200),
         agent_paid_state\<lparr>shipping_confirmation_registry_aa :=
           insert ''991'' (shipping_confirmation_registry_aa agent_paid_state)\<rparr>)
   \<and> invoice_registry (agent_run (map (ShippingConfirmed (Some ''991''))
        [BackendReplied 200]) agent_paid_state) = invoice_registry agent_paid_state"
proof -
  have h1: "''INV-1'' \<noteq> [] \<and> status_of paid_state ''INV-1'' = Some ''PAID''"
    by (simp add: paid_state_def status_of_def paid_invoice_def)
  have h2: "''991'' \<noteq> [] \<and> map_of (invoice_registry agent_paid_state) ''991'' = Some ''PAID''"
    by (simp add: agent_paid_state_def)
  note t = trigger_on_paid_idempotent
         [of "''INV-1''" paid_state payment_ok "[payment_ok]" payment_ok "[payment_ok, payment_ok]"
             "''991''" agent_paid_state BackendRaised "[BackendReplied 200]" BackendRaised
             "[BackendReplied 200]"]
  note t1 = t [THEN conjunct1, THEN mp, OF h1]
  note t2 = t [THEN conjunct2, THEN mp, OF h2]
  show ?thesis
    using h1 h2 t1 [THEN conjunct1] t1 [THEN conjunct2, THEN conjunct2, THEN conjunct2]
      t2 [THEN conjunct1] t2 [THEN conjunct2, THEN conjunct2, THEN conjunct2]
    by (elim conjE) (intro conjI; assumption)
qed

text \<open>
  C9, as stated, fails: a condition signal that finds the invoice EXECUTING (here
  after a restart on a file saved while a payment was in flight) sends nothing to the
  backend and is answered 202, not 200.
\<close>

theorem signal_in_progress_counterexample:
  "fst (mock_shipping_confirmation (Some ''INV-1'') payment_ok interrupted_state)
     = (AlreadyInProgress, 202)
   \<and> snd (fst (mock_shipping_confirmation (Some ''INV-1'') payment_ok interrupted_state)) \<noteq> 200
   \<and> requests_sent (snd (mock_shipping_confirmation (Some ''INV-1'') payment_ok interrupted_state))
     = requests_sent interrupted_state"
proof -
  have "status_of interrupted_state ''INV-1'' = Some ''EXECUTING''"
    by (simp add: interrupted_state_def load_database_def initial_def status_of_def)
  then show ?thesis
    by (simp add: mock_shipping_confirmation_def trigger_payment_idle)
qed

text \<open>
  C9, amended. A condition signal carrying a non-empty id, whose handling does not
  involve a failing payment call, is answered 200 with the outcome (paid, recorded
  awaiting creation, already paid, recorded awaiting monitoring), except that an invoice
  found EXECUTING is answered 202 "already in progress" by both services, and the voice
  agent answers 409 for a registry state other than MONITORING, PAID and EXECUTING. In
  every such case the id is in the registry afterwards; in particular a signal for an
  id without a record is answered 200 and recorded.
\<close>

theorem signal_outcomes:
  "(i \<noteq> [] \<and> \<not> (status_of s i = Some ''MONITORING'' \<and> \<not> payment_succeeds env) \<longrightarrow>
      fst (mock_shipping_confirmation (Some i) env s) =
        (if status_of s i = Some ''MONITORING'' then (ConditionMetPaid, 200)
         else if status_of s i = None then (RecordedAwaitingCreation, 200)
         else if status_of s i = Some ''PAID'' then (AlreadyPaid, 200)
         else if status_of s i = Some ''EXECUTING'' then (AlreadyInProgress, 202)
         else (RecordedAwaitingMonitoring, 200))
    \<and> i \<in> shipping_confirmation_registry (snd (mock_shipping_confirmation (Some i) env s)))
   \<and> (j \<noteq> [] \<and> \<not> (map_of (invoice_registry t) j = Some ''MONITORING''
                     \<and> answer \<noteq> BackendReplied 200) \<longrightarrow>
      fst (mock_shipping_confirmation_aa (Some j) answer t) =
        (case map_of (invoice_registry t) j of
           None \<Rightarrow> (SignalRecorded j, 200)
         | Some st \<Rightarrow>
             if st = ''MONITORING'' then (SignalPaid j, 200)
             else if st = ''PAID'' then (SignalAlreadyPaid, 200)
             else if st = ''EXECUTING'' then (SignalInProgress, 202)
             else (SignalNonStandard st, 409))
    \<and> j \<in> shipping_confirmation_registry_aa
              (snd (mock_shipping_confirmation_aa (Some j) answer t)))"
proof (intro conjI impI)
  assume a: "i \<noteq> [] \<and> \<not> (status_of s i = Some ''MONITORING'' \<and> \<not> payment_succeeds env)"
  show "fst (mock_shipping_confirmation (Some i) env s) =
        (if status_of s i = Some ''MONITORING'' then (ConditionMetPaid, 200)
         else if status_of s i = None then (RecordedAwaitingCreation, 200)
         else if status_of s i = Some ''PAID'' then (AlreadyPaid, 200)
         else if status_of s i = Some ''EXECUTING'' then (AlreadyInProgress, 202)
         else (RecordedAwaitingMonitoring, 200))"
  proof (cases "status_of s i = Some ''MONITORING''")
    case True
    then show ?thesis using a
      by (simp add: mock_shipping_confirmation_def trigger_payment_fires_reply)
  next
    case False
    then show ?thesis using a
      by (simp add: mock_shipping_confirmation_def trigger_payment_idle)
  qed
  show "i \<in> shipping_confirmation_registry (snd (mock_shipping_confirmation (Some i) env s))"
    using a by (simp add: mock_shipping_confirmation_def trigger_payment_registry)
next
  assume a: "j \<noteq> [] \<and> \<not> (map_of (invoice_registry t) j = Some ''MONITORING''
                     \<and> answer \<noteq> BackendReplied 200)"
  show "fst (mock_shipping_confirmation_aa (Some j) answer t) =
        (case map_of (invoice_registry t) j of
           None \<Rightarrow> (SignalRecorded j, 200)
         | Some st \<Rightarrow>
             if st = ''MONITORING'' then (SignalPaid j, 200)
             else if st = ''PAID'' then (SignalAlreadyPaid, 200)
             else if st = ''EXECUTING'' then (SignalInProgress, 202)
             else (SignalNonStandard st, 409))"
  proof (cases "map_of (invoice_registry t) j = Some ''MONITORING''")
    case True
    then show ?thesis using a by (simp add: mock_aa_fires)
  next
    case False
    then show ?thesis using a by (auto simp: mock_aa_idle split: option.splits)
  qed
  show "j \<in> shipping_confirmation_registry_aa
              (snd (mock_shipping_confirmation_aa (Some j) answer t))"
    using a by (simp add: mock_aa_ship)
qed

theorem signal_outcomes_witness:
  "(''INV-1'' \<noteq> [] \<and> \<not> (status_of interrupted_state ''INV-1'' = Some ''MONITORING''
                          \<and> \<not> payment_succeeds payment_ok))
   \<and> (''991'' \<noteq> [] \<and> \<not> (map_of (invoice_registry agent_initial) ''991'' = Some ''MONITORING''
                        \<and> BackendRaised \<noteq> BackendReplied 200))
   \<and> fst (mock_shipping_confirmation (Some ''INV-1'') payment_ok interrupted_state)
       = (AlreadyInProgress, 202)
   \<and> fst (mock_shipping_confirmation_aa (Some ''991'') BackendRaised agent_initial)
       = (SignalRecorded ''991'', 200)
   \<and> ''991'' \<in> shipping_confirmation_registry_aa
        (snd (mock_shipping_confirmation_aa (Some ''991'') BackendRaised agent_initial))"
proof -
  have st: "status_of interrupted_state ''INV-1'' = Some ''EXECUTING''"
    by (simp add: interrupted_state_def load_database_def initial_def status_of_def)
  have rg: "map_of (invoice_registry agent_initial) ''991'' = None"
    by (simp add: agent_initial_def)
  have h1: "''INV-1'' \<noteq> [] \<and> \<not> (status_of interrupted_state ''INV-1'' = Some ''MONITORING''
                          \<and> \<not> payment_succeeds payment_ok)"
    by (simp add: st)
  have h2: "''991'' \<noteq> [] \<and> \<not> (map_of (invoice_registry agent_initial) ''991'' = Some ''MONITORING''
                        \<and> BackendRaised \<noteq> BackendReplied 200)"
    by (simp add: rg)
  note t = signal_outcomes [of "''INV-1''" interrupted_state payment_ok "''991''" agent_initial
             BackendRaised]
  note t1 = t [THEN conjunct1, THEN mp, OF h1]
  note t2 = t [THEN conjunct2, THEN mp, OF h2]
  have a: "fst (mock_shipping_confirmation (Some ''INV-1'') payment_ok interrupted_state)
       = (AlreadyInProgress, 202)"
    using t1 [THEN conjunct1] by (simp add: st)
  have b: "fst (mock_shipping_confirmation_aa (Some ''991'') BackendRaised agent_initial)
       = (SignalRecorded ''991'', 200)"
    using t2 [THEN conjunct1] by (simp add: rg)
  show ?thesis using h1 h2 a b t2 [THEN conjunct2]
    by (elim conjE) (intro conjI; assumption)
qed

text \<open>
  C6. The pre-check passes (balance 50 for an amount of 1) and the backend refuses the
  creation with a message holding the marker INSUFFICIENT_BALANCE. The handler builds
  the INSUFFICIENT_FUNDS message, and returns it with status 500: the claim's 402 is
  what the pre-check path returns for the same error, not this path.
\<close>

theorem remote_insufficient_balance_answered_500:
  "fst (check_backend_balance 1 (balance_answer balance_refused) initial) = (True, 50)
   \<and> fst (create_payment_request inv7_payload balance_refused initial)
       = (InsufficientFundsRecheck 50, 500)"
  by (simp add: create_payment_request_def create_payment_logic_def check_backend_balance_def
      balance_refused_def all_well_def inv7_payload_def initial_def Let_def
      sublist_code prefix_code)

text \<open>
  C4, as stated, fails in two ways. When the backend's message holds the marker
  INSUFFICIENT_BALANCE, the error returned is the INSUFFICIENT_FUNDS message with the
  balance, which does not carry the upstream message. And when the write of the
  rollback fails (\<open>save_database\<close> logs it and goes on), the file still holds the
  record that was inserted.
\<close>

theorem create_rollback_counterexample:
  "create_failed (create_answer balance_refused)
   \<and> \<not> carries_upstream (fst (fst (create_payment_request inv7_payload balance_refused initial)))
         (upstream_message (create_answer balance_refused))
   \<and> create_failed (create_answer unreachable_unwritten)
   \<and> DB_FILE (snd (create_payment_request inv7_payload unreachable_unwritten initial))
       = Holds [''INV-7'' \<mapsto> pending_inv7]"
  by (simp add: create_payment_request_def create_payment_logic_def check_backend_balance_def
      balance_refused_def unreachable_unwritten_def all_well_def inv7_payload_def initial_def
      Let_def sublist_code prefix_code create_failed_def carries_upstream_def
      upstream_message_def pending_inv7_def delete_invoice_def send_def save_database_def)

text \<open>
  C4, amended. If a creation request passes the duplicate and solvency checks and the
  remote creation call fails (a status other than 201, or an exception), the call
  fails: with status 500 and an error that carries the upstream message, unless the
  backend's message holds the marker INSUFFICIENT_BALANCE, when the error is the
  INSUFFICIENT_FUNDS message with the observed balance. The inserted record is deleted: the store is what it was before
  the call, and a later listing does not hold the id. When the write of the rollback
  succeeds, the file holds the store without the id, and a reload does not bring it
  back.
\<close>

theorem create_rollback:
  assumes "p_invoiceId p = Some i" and "i \<noteq> []" and "INVOICE_DB s i = None"
    and "\<not> query_failed (balance_answer env)
         \<and> \<not> observed_balance (balance_answer env) < requested_amount p + 1 / 10"
    and "create_failed (create_answer env)"
  shows "(if insufficient_balance_reported (create_answer env)
          then fst (fst (create_payment_request p env s))
                 = InsufficientFundsRecheck (observed_balance (balance_answer env))
          else snd (fst (create_payment_request p env s)) = 500
               \<and> carries_upstream (fst (fst (create_payment_request p env s)))
                    (upstream_message (create_answer env)))
         \<and> INVOICE_DB (snd (create_payment_request p env s)) = INVOICE_DB s
         \<and> i \<notin> dom (fst (get_payment_status (snd (create_payment_request p env s))))
         \<and> requests_sent (snd (create_payment_request p env s))
             = requests_sent s @ [GetBalance, CreateOnChain p]
         \<and> (rollback_write env = Written \<longrightarrow>
              DB_FILE (snd (create_payment_request p env s)) = Holds (INVOICE_DB s)
              \<and> INVOICE_DB (load_database (snd (create_payment_request p env s))) i = None)"
proof -
  note r = create_rolled_back [OF assms(1) assms(2) assms(3) assms(4) [THEN conjunct1]
             assms(4) [THEN conjunct2] assms(5)]
  have b: "if insufficient_balance_reported (create_answer env)
          then fst (fst (create_payment_request p env s))
                 = InsufficientFundsRecheck (observed_balance (balance_answer env))
          else snd (fst (create_payment_request p env s)) = 500
               \<and> carries_upstream (fst (fst (create_payment_request p env s)))
                    (upstream_message (create_answer env))"
    by (simp add: create_payment_request_def r(1) insufficient_balance_reported_def
        carries_upstream_def upstream_message_def split: create_reply.splits)
  have c: "INVOICE_DB (snd (create_payment_request p env s)) = INVOICE_DB s"
    by (simp add: create_payment_request_def r(2))
  have d: "i \<notin> dom (fst (get_payment_status (snd (create_payment_request p env s))))"
    using assms(3) by (simp add: get_payment_status_def c domIff)
  have e: "requests_sent (snd (create_payment_request p env s))
             = requests_sent s @ [GetBalance, CreateOnChain p]"
    by (simp add: create_payment_request_def r(3))
  have f: "rollback_write env = Written \<longrightarrow>
              DB_FILE (snd (create_payment_request p env s)) = Holds (INVOICE_DB s)
              \<and> INVOICE_DB (load_database (snd (create_payment_request p env s))) i = None"
    using assms(3) by (simp add: create_payment_request_def r(5) load_database_def)
  show ?thesis using b c d e f by blast
qed

theorem create_rollback_witness:
  "p_invoiceId inv7_payload = Some ''INV-7''
   \<and> ''INV-7'' \<noteq> []
   \<and> INVOICE_DB initial ''INV-7'' = None
   \<and> (\<not> query_failed (balance_answer unreachable)
       \<and> \<not> observed_balance (balance_answer unreachable) < requested_amount inv7_payload + 1 / 10)
   \<and> create_failed (create_answer unreachable)
   \<and> rollback_write unreachable = Written
   \<and> \<not> insufficient_balance_reported (create_answer unreachable)
   \<and> snd (fst (create_payment_request inv7_payload unreachable initial)) = 500
   \<and> carries_upstream (fst (fst (create_payment_request inv7_payload unreachable initial)))
        ''Connection refused''
   \<and> INVOICE_DB (snd (create_payment_request inv7_payload unreachable initial))
       = INVOICE_DB initial
   \<and> ''INV-7'' \<notin> dom (fst (get_payment_status
        (snd (create_payment_request inv7_payload unreachable initial))))
   \<and> DB_FILE (snd (create_payment_request inv7_payload unreachable initial))
       = Holds (INVOICE_DB initial)"
proof -
  have h1: "p_invoiceId inv7_payload = Some ''INV-7''" by (simp add: inv7_payload_def)
  have h2: "''INV-7'' \<noteq> []" by simp
  have h3: "INVOICE_DB initial ''INV-7'' = None" by (simp add: initial_def)
  have h4: "\<not> query_failed (balance_answer unreachable)
       \<and> \<not> observed_balance (balance_answer unreachable) < requested_amount inv7_payload + 1 / 10"
    by (simp add: unreachable_def all_well_def query_failed_def observed_balance_def
        requested_amount_def inv7_payload_def)
  have h5: "create_failed (create_answer unreachable)"
    by (simp add: unreachable_def create_failed_def)
  have w: "rollback_write unreachable = Written"
    by (simp add: unreachable_def all_well_def)
  have m: "\<not> insufficient_balance_reported (create_answer unreachable)"
    by (simp add: unreachable_def insufficient_balance_reported_def)
  have u: "upstream_message (create_answer unreachable) = ''Connection refused''"
    by (simp add: unreachable_def upstream_message_def)
  note r = create_rollback [OF h1 h2 h3 h4 h5]
  have r1: "snd (fst (create_payment_request inv7_payload unreachable initial)) = 500
     \<and> carries_upstream (fst (fst (create_payment_request inv7_payload unreachable initial)))
          ''Connection refused''"
    using r [THEN conjunct1] m by (simp only: if_False u)
  note r3 = r [THEN conjunct2]
  note r6 = r3 [THEN conjunct2, THEN conjunct2, THEN conjunct2, THEN mp, OF w]
  show ?thesis
    using h1 h2 h3 h4 h5 w m r1 r3 [THEN conjunct1]
      r3 [THEN conjunct2, THEN conjunct1] r6 [THEN conjunct1]
    by (elim conjE) (intro conjI; assumption)
qed




text \<open>
  C3. Take an id with no record yet, a creation request for it that passes the
  solvency check and that the backend accepts, and a payment call that the backend
  answers 200 with a transaction hash and a payment date. Whether the condition signal
  comes first (before the creation and the start of monitoring) or last (after them),
  the final state is the same state, file and requests sent included, and in it the
  invoice is PAID with that hash and that date: when the signal came first,
  \<open>process_invoice\<close> finds the id in the registry and calls \<open>trigger_payment\<close> itself.
\<close>

theorem signal_order_independent:
  assumes fresh: "p_invoiceId p = Some i \<and> i \<noteq> [] \<and> INVOICE_DB s i = None"
    and solvent: "\<not> query_failed (balance_answer ce)
                  \<and> \<not> observed_balance (balance_answer ce) < requested_amount p + 1 / 10"
    and created: "create_answer ce = CreateReplied 201 err"
    and paid: "trigger_answer (nested_trigger me) = TriggerReplied 200 (TriggerJson (Some pa) (Some h))"
  shows "run [Trigger (Some i) te, CreateInvoice p ce, BeginMonitoring (Some i) me] s
         = run [CreateInvoice p ce, BeginMonitoring (Some i) me,
                Trigger (Some i) (nested_trigger me)] s
         \<and> map_option status
             (INVOICE_DB (run [Trigger (Some i) te, CreateInvoice p ce,
                               BeginMonitoring (Some i) me] s) i) = Some ''PAID''
         \<and> map_option transactionHash
             (INVOICE_DB (run [Trigger (Some i) te, CreateInvoice p ce,
                               BeginMonitoring (Some i) me] s) i) = Some (Some h)
         \<and> map_option paidAt
             (INVOICE_DB (run [Trigger (Some i) te, CreateInvoice p ce,
                               BeginMonitoring (Some i) me] s) i) = Some (Some pa)"
proof -
  let ?c = "snd (create_payment_logic p ce s)"
  let ?m = "monitoring_begun i me ?c"
  let ?T = "snd (trigger_payment (Some i) (nested_trigger me) ?m)"
  let ?R = "\<lambda>x. x\<lparr>shipping_confirmation_registry := insert i (shipping_confirmation_registry x)\<rparr>"
  have i: "i \<noteq> []" and p: "p_invoiceId p = Some i" and n: "INVOICE_DB s i = None"
    using fresh by auto
  note cs = create_succeeds [OF p i n solvent [THEN conjunct1] solvent [THEN conjunct2] created]
  have creg: "shipping_confirmation_registry ?c = shipping_confirmation_registry s"
    by (rule create_payment_logic_registry)
  obtain d where d: "INVOICE_DB ?c i = Some d" and dp: "status d = ''Pending''"
    using cs(2) by simp
  have m_status: "status_of ?m i = Some ''MONITORING''"
    using cs(3) by (simp add: monitoring_begun_status)
  have m_db: "INVOICE_DB ?m i = Some (d\<lparr>status := ''MONITORING''\<rparr>)"
    using cs(3) d by (simp add: monitoring_begun_def)
  have T_db: "INVOICE_DB ?T i =
      Some (d\<lparr>status := ''PAID'', paidAt := Some pa, transactionHash := Some h\<rparr>)"
    using trigger_payment_paid_record [OF i m_status paid] m_db by simp
  have T_status: "status_of ?T i = Some ''PAID''"
    using T_db by (simp add: status_of_def)
  have T_reg: "i \<in> shipping_confirmation_registry ?T"
    using i by (simp add: trigger_payment_registry)
  have s_status: "status_of s i \<noteq> Some ''MONITORING''"
    using n by (simp add: status_of_def)
  have a1: "snd (step (Trigger (Some i) te) s) = ?R s"
    using i s_status by (simp add: mock_shipping_confirmation_def trigger_payment_idle)
  have a2: "snd (step (CreateInvoice p ce) (?R s)) = ?R ?c"
    by (simp add: create_payment_request_def create_payment_logic_registry_frame creg)
  have Rc_db: "INVOICE_DB (?R ?c) i = Some d" using d by simp
  have mR: "monitoring_begun i me (?R ?c) = ?R ?m"
    by (simp add: monitoring_begun_registry_frame)
  have tr: "trigger_payment (Some i) (nested_trigger me)
              (?m\<lparr>shipping_confirmation_registry :=
                    insert i (shipping_confirmation_registry ?c)\<rparr>)
            = trigger_payment (Some i) (nested_trigger me) ?m"
    using trigger_payment_registered [OF i, of "nested_trigger me" ?m] by simp
  have a3: "snd (step (BeginMonitoring (Some i) me) (?R ?c)) = ?T"
    using i by (simp add: process_invoice_found [OF i Rc_db] mR tr)
  have A: "run [Trigger (Some i) te, CreateInvoice p ce, BeginMonitoring (Some i) me] s = ?T"
    by (simp add: a1 a2 a3 del: step.simps)
  have b1: "snd (step (CreateInvoice p ce) s) = ?c"
    by (simp add: create_payment_request_def)
  have B: "run [CreateInvoice p ce, BeginMonitoring (Some i) me,
                Trigger (Some i) (nested_trigger me)] s = ?T"
  proof (cases "i \<in> shipping_confirmation_registry ?c")
    case True
    have b2: "snd (step (BeginMonitoring (Some i) me) ?c) = ?T"
      using True by (simp add: process_invoice_found [OF i d])
    have b3: "snd (step (Trigger (Some i) (nested_trigger me)) ?T) = ?T"
      using i T_status T_reg
      by (simp add: mock_shipping_confirmation_def trigger_payment_idle)
    show ?thesis by (simp add: b1 b2 b3 del: step.simps)
  next
    case False
    have b2: "snd (step (BeginMonitoring (Some i) me) ?c) = ?m"
      using False by (simp add: process_invoice_found [OF i d])
    have b3: "snd (step (Trigger (Some i) (nested_trigger me)) ?m) = ?T"
      by (simp add: mock_shipping_confirmation_def)
    show ?thesis by (simp add: b1 b2 b3 del: step.simps)
  qed
  show ?thesis
    unfolding A B using T_db by simp
qed


theorem signal_order_independent_witness:
  "(p_invoiceId inv7_payload = Some ''INV-7'' \<and> ''INV-7'' \<noteq> []
      \<and> INVOICE_DB initial ''INV-7'' = None)
   \<and> (\<not> query_failed (balance_answer all_well)
      \<and> \<not> observed_balance (balance_answer all_well) < requested_amount inv7_payload + 1 / 10)
   \<and> create_answer all_well = CreateReplied 201 []
   \<and> trigger_answer (nested_trigger monitor_ok)
       = TriggerReplied 200 (TriggerJson (Some ''2025-01-02T10:00:00'') (Some ''0xabc''))
   \<and> run [Trigger (Some ''INV-7'') payment_ok, CreateInvoice inv7_payload all_well,
           BeginMonitoring (Some ''INV-7'') monitor_ok] initial
       = run [CreateInvoice inv7_payload all_well, BeginMonitoring (Some ''INV-7'') monitor_ok,
              Trigger (Some ''INV-7'') (nested_trigger monitor_ok)] initial
   \<and> map_option status
        (INVOICE_DB (run [Trigger (Some ''INV-7'') payment_ok, CreateInvoice inv7_payload all_well,
                          BeginMonitoring (Some ''INV-7'') monitor_ok] initial) ''INV-7'')
       = Some ''PAID''
   \<and> map_option transactionHash
        (INVOICE_DB (run [Trigger (Some ''INV-7'') payment_ok, CreateInvoice inv7_payload all_well,
                          BeginMonitoring (Some ''INV-7'') monitor_ok] initial) ''INV-7'')
       = Some (Some ''0xabc'')"
proof -
  have h1: "p_invoiceId inv7_payload = Some ''INV-7'' \<and> ''INV-7'' \<noteq> []
      \<and> INVOICE_DB initial ''INV-7'' = None"
    by (simp add: inv7_payload_def initial_def)
  have h2: "\<not> query_failed (balance_answer all_well)
      \<and> \<not> observed_balance (balance_answer all_well) < requested_amount inv7_payload + 1 / 10"
    by (simp add: all_well_def query_failed_def observed_balance_def requested_amount_def
        inv7_payload_def)
  have h3: "create_answer all_well = CreateReplied 201 []" by (simp add: all_well_def)
  have h4: "trigger_answer (nested_trigger monitor_ok)
       = TriggerReplied 200 (TriggerJson (Some ''2025-01-02T10:00:00'') (Some ''0xabc''))"
    by (simp add: monitor_ok_def payment_ok_def)
  note r = signal_order_independent [OF h1 h2 h3 h4, of payment_ok]
  show ?thesis
    using h1 h2 h3 h4 r [THEN conjunct1] r [THEN conjunct2, THEN conjunct1]
      r [THEN conjunct2, THEN conjunct2, THEN conjunct1]
    by (elim conjE) (intro conjI; assumption)
qed

text \<open>
  C1, as stated, fails on the voice agent: a condition signal for an id without an
  invoice is recorded, and the voice request that creates the invoice then posts the
  payment itself, for an id that never was MONITORING.
\<close>

theorem payment_without_monitoring_counterexample:
  "map_of (invoice_registry
            (agent_run [ShippingConfirmed (Some ''991'') BackendRaised] agent_initial)) ''991''
     = None
   \<and> payments_posted (agent_run [ShippingConfirmed (Some ''991'') BackendRaised] agent_initial)
     = []
   \<and> payments_posted
       (agent_run [ShippingConfirmed (Some ''991'') BackendRaised, Transcribe voice_991]
          agent_initial) = [''991'']"
  by (simp add: mock_shipping_confirmation_aa_def transcribe_audio_aa_def execute_payment_def
      extract_invoice_id_from_text_def is_digit_def voice_991_def agent_initial_def
      set_state_def del_entry_def Let_def)


text \<open>
  C1, amended. In the orchestrator, for every run of creation, monitoring and signal
  requests, the payment requests sent are exactly those of the requests that call
  \<open>trigger_payment\<close> where the invoice is MONITORING; a condition signal that finds
  anything else (no invoice, Pending, EXECUTING, PAID) only registers the id and leaves
  the store, the file and the requests sent as they were. In the voice agent the
  condition signal likewise posts a payment only when it finds MONITORING and otherwise
  leaves the invoice registry as it was, but a voice request posts the payment itself
  for an extracted id that is in the shipping registry and not PAID, whatever its state.
\<close>

theorem payment_call_only_from_monitoring:
  "payment_ids (requests_sent (run ops s0)) = payment_ids (requests_sent s0) @ fired ops s0
   \<and> (i \<noteq> [] \<and> status_of s i \<noteq> Some ''MONITORING'' \<longrightarrow>
        snd (mock_shipping_confirmation (Some i) env s)
          = s\<lparr>shipping_confirmation_registry := insert i (shipping_confirmation_registry s)\<rparr>
      \<and> INVOICE_DB (snd (mock_shipping_confirmation (Some i) env s)) = INVOICE_DB s
      \<and> DB_FILE (snd (mock_shipping_confirmation (Some i) env s)) = DB_FILE s
      \<and> requests_sent (snd (mock_shipping_confirmation (Some i) env s)) = requests_sent s)
   \<and> payments_posted (snd (mock_shipping_confirmation_aa io a t)) =
        payments_posted t @
          (case io of
             None \<Rightarrow> []
           | Some k \<Rightarrow>
               if k \<noteq> [] \<and> map_of (invoice_registry t) k = Some ''MONITORING'' then [k] else [])
   \<and> (j \<noteq> [] \<and> map_of (invoice_registry t) j \<noteq> Some ''MONITORING'' \<longrightarrow>
        invoice_registry (snd (mock_shipping_confirmation_aa (Some j) a t)) = invoice_registry t)
   \<and> payments_posted (snd (transcribe_audio_aa venv t)) =
        payments_posted t @
          (case voice_request_id venv of
             None \<Rightarrow> []
           | Some k \<Rightarrow>
               if map_of (invoice_registry t) k \<noteq> Some ''PAID''
                  \<and> k \<in> shipping_confirmation_registry_aa t
               then [k] else [])"
proof (intro conjI impI)
  show "payment_ids (requests_sent (run ops s0)) = payment_ids (requests_sent s0) @ fired ops s0"
    by (rule run_payment_ids)
next
  assume a: "i \<noteq> [] \<and> status_of s i \<noteq> Some ''MONITORING''"
  then show idle: "snd (mock_shipping_confirmation (Some i) env s)
          = s\<lparr>shipping_confirmation_registry := insert i (shipping_confirmation_registry s)\<rparr>"
    by (simp add: mock_shipping_confirmation_def trigger_payment_idle)
  show "INVOICE_DB (snd (mock_shipping_confirmation (Some i) env s)) = INVOICE_DB s"
    by (simp add: idle)
  show "DB_FILE (snd (mock_shipping_confirmation (Some i) env s)) = DB_FILE s"
    by (simp add: idle)
  show "requests_sent (snd (mock_shipping_confirmation (Some i) env s)) = requests_sent s"
    by (simp add: idle)
next
  show "payments_posted (snd (mock_shipping_confirmation_aa io a t)) =
        payments_posted t @
          (case io of
             None \<Rightarrow> []
           | Some k \<Rightarrow>
               if k \<noteq> [] \<and> map_of (invoice_registry t) k = Some ''MONITORING'' then [k] else [])"
    by (rule mock_aa_posts)
next
  assume "j \<noteq> [] \<and> map_of (invoice_registry t) j \<noteq> Some ''MONITORING''"
  then show "invoice_registry (snd (mock_shipping_confirmation_aa (Some j) a t))
             = invoice_registry t"
    by (simp add: mock_aa_idle)
next
  show "payments_posted (snd (transcribe_audio_aa venv t)) =
        payments_posted t @
          (case voice_request_id venv of
             None \<Rightarrow> []
           | Some k \<Rightarrow>
               if map_of (invoice_registry t) k \<noteq> Some ''PAID''
                  \<and> k \<in> shipping_confirmation_registry_aa t
               then [k] else [])"
    by (rule transcribe_posts)
qed

theorem payment_call_only_from_monitoring_witness:
  "(''INV-7'' \<noteq> [] \<and> status_of initial ''INV-7'' \<noteq> Some ''MONITORING'')
   \<and> (''991'' \<noteq> [] \<and> map_of (invoice_registry agent_initial) ''991'' \<noteq> Some ''MONITORING'')
   \<and> snd (mock_shipping_confirmation (Some ''INV-7'') payment_ok initial)
       = initial\<lparr>shipping_confirmation_registry :=
                   insert ''INV-7'' (shipping_confirmation_registry initial)\<rparr>
   \<and> requests_sent (snd (mock_shipping_confirmation (Some ''INV-7'') payment_ok initial))
       = requests_sent initial
   \<and> invoice_registry (snd (mock_shipping_confirmation_aa (Some ''991'') BackendRaised
        agent_initial)) = invoice_registry agent_initial
   \<and> fired [Trigger (Some ''INV-7'') payment_ok, CreateInvoice inv7_payload all_well,
             BeginMonitoring (Some ''INV-7'') monitor_ok,
             Trigger (Some ''INV-7'') payment_ok] initial = [''INV-7'']"
proof -
  have h1: "''INV-7'' \<noteq> [] \<and> status_of initial ''INV-7'' \<noteq> Some ''MONITORING''"
    by (simp add: initial_def status_of_def)
  have h2: "''991'' \<noteq> [] \<and> map_of (invoice_registry agent_initial) ''991'' \<noteq> Some ''MONITORING''"
    by (simp add: agent_initial_def)
  note t = payment_call_only_from_monitoring
    [of "[Trigger (Some ''INV-7'') payment_ok, CreateInvoice inv7_payload all_well,
          BeginMonitoring (Some ''INV-7'') monitor_ok, Trigger (Some ''INV-7'') payment_ok]"
        initial "''INV-7''" initial payment_ok "Some ''991''" BackendRaised agent_initial
        "''991''" voice_991]
  note t2 = t [THEN conjunct2, THEN conjunct1, THEN mp, OF h1]
  note t4 = t [THEN conjunct2, THEN conjunct2, THEN conjunct2, THEN conjunct1, THEN mp, OF h2]
  have sent: "payment_ids (requests_sent
      (run [Trigger (Some ''INV-7'') payment_ok, CreateInvoice inv7_payload all_well,
            BeginMonitoring (Some ''INV-7'') monitor_ok, Trigger (Some ''INV-7'') payment_ok]
         initial)) = [''INV-7'']"
    by (simp add: create_payment_request_def create_payment_logic_def check_backend_balance_def
      process_invoice_def mock_shipping_confirmation_def trigger_payment_def
      inv7_payload_def all_well_def monitor_ok_def payment_ok_def initial_def Let_def
      send_def save_database_def set_status_def update_invoice_def)
  have none: "payment_ids (requests_sent initial) = []" by (simp add: initial_def)
  have f: "fired [Trigger (Some ''INV-7'') payment_ok, CreateInvoice inv7_payload all_well,
             BeginMonitoring (Some ''INV-7'') monitor_ok,
             Trigger (Some ''INV-7'') payment_ok] initial = [''INV-7'']"
    using t [THEN conjunct1] by (simp only: sent none append_Nil)
  show ?thesis
    using h1 h2 t2 [THEN conjunct1] t2 [THEN conjunct2, THEN conjunct2, THEN conjunct2] t4 f
    by (elim conjE) (intro conjI; assumption)
qed

end
